theory Spec2Isabelle
  imports
    Complex_Main
    "HOL-Library.AList"
    "HOL-Library.Char_ord"
    "HOL-Library.List_Lexorder"
begin

section \<open>Data model (types.ts)\<close>

text \<open>
  Amounts are JavaScript numbers in the source, that is IEEE doubles. A finite double is a
  rational number, and the type of amounts is the type of the rationals; not-a-number and
  the infinities are no amounts of the model. The operations \<open>+\<close> and \<open>-\<close> of the source
  round the exact result to a double. The definitions below come in two forms. The form
  with the suffix \<open>_fl\<close>, and the checks of the transaction form and of the import, take the
  rounding function \<open>fl\<close> as an argument and apply it at every \<open>+\<close> and binary \<open>-\<close> of the
  source. The form without suffix is written with the exact operations: it is the source
  on amounts whose sums and differences are doubles, such as whole numbers up to \<open>2^53\<close>.
  Strings are byte lists; dates are ISO date strings compared with the lexicographic order
  on strings, as \<open><\<close> and \<open><=\<close> on JavaScript strings do.
\<close>

type_synonym number = rat

datatype AccountType = Aset | Liabilitas | Modal | Pendapatan | Beban

record Account =
  acc_id :: "string option"
  code :: string
  name :: string
  atype :: AccountType
  balance :: number
  description :: string

record JournalEntry =
  entry_id :: "string option"
  transaction_id :: "string option"
  account_code :: string
  debit :: number
  credit :: number

record Transaction =
  tx_id :: "string option"
  date :: string
  ref :: string
  tx_description :: string
  entries :: "JournalEntry list"

record Period =
  period_start :: string
  period_end :: string

section \<open>JavaScript library functions used by the source\<close>

text \<open>
  \<open>String.prototype.toLowerCase\<close> on strings of ASCII characters: the letters \<open>A\<close> to \<open>Z\<close>
  are mapped to \<open>a\<close> to \<open>z\<close>, every other byte is left as it is. The source's function also
  maps letters outside ASCII, which this definition does not describe;
  \<open>calculatePeriodFinancials_fl\<close> therefore takes the function as an argument.
\<close>

definition lowerChar :: "char \<Rightarrow> char" where
  "lowerChar c =
     (case map_of (zip ''ABCDEFGHIJKLMNOPQRSTUVWXYZ'' ''abcdefghijklmnopqrstuvwxyz'') c of
        None \<Rightarrow> c
      | Some l \<Rightarrow> l)"

definition toLowerCase :: "string \<Rightarrow> string" where
  "toLowerCase s = map lowerChar s"

text \<open>\<open>String.prototype.includes\<close>: the argument occurs as a contiguous substring.\<close>

fun startsWith :: "string \<Rightarrow> string \<Rightarrow> bool" where
  "startsWith s [] = True"
| "startsWith [] (c # cs) = False"
| "startsWith (x # xs) (c # cs) = (x = c \<and> startsWith xs cs)"

fun str_includes :: "string \<Rightarrow> string \<Rightarrow> bool" where
  "str_includes [] sub = (sub = [])"
| "str_includes (x # xs) sub = (startsWith (x # xs) sub \<or> str_includes xs sub)"

text \<open>
  A JavaScript \<open>Map<string, number>\<close> is an association list in insertion order with one pair
  per key: \<open>set\<close> on a present key replaces the value in place, on a new key appends.
\<close>

type_synonym js_map = "(string \<times> number) list"

definition Map_get :: "js_map \<Rightarrow> string \<Rightarrow> number option" where
  "Map_get m k = map_of m k"

definition Map_set :: "js_map \<Rightarrow> string \<Rightarrow> number \<Rightarrow> js_map" where
  "Map_set m k v = AList.update k v m"

definition Map_new :: "(string \<times> number) list \<Rightarrow> js_map" where
  "Map_new kvs = foldl (\<lambda>m (k, v). Map_set m k v) [] kvs"

text \<open>\<open>x || 0\<close> on the result of \<open>Map.get\<close>: \<open>undefined\<close> and \<open>0\<close> both give \<open>0\<close>.\<close>

fun or0 :: "number option \<Rightarrow> number" where
  "or0 None = 0"
| "or0 (Some v) = v"

section \<open>Arithmetic of doubles\<close>

text \<open>
  The rounding function of an operation on doubles is an argument \<open>fl\<close> of the definitions
  that follow the source's arithmetic. Of this function the proofs use one property: a whole
  number of absolute value at most \<open>2^53\<close> is a double, and is the result of an operation
  whose exact result it is.
\<close>

definition isWhole :: "number \<Rightarrow> bool" where
  "isWhole x = (of_int \<lfloor>x\<rfloor> = x)"

definition exactOnWhole :: "(number \<Rightarrow> number) \<Rightarrow> bool" where
  "exactOnWhole fl = (\<forall>x. isWhole x \<and> \<bar>x\<bar> \<le> 2 ^ 53 \<longrightarrow> fl x = x)"

text \<open>
  The rounding of IEEE 754 binary64, to the nearest double with ties to the even
  significand: a significand of 53 bits, and a spacing of \<open>2^(-1074)\<close> below the normal
  range. Results beyond the largest double, which the source's operations give as an
  infinity, are outside the model. \<open>bitLength n\<close> is the number of binary digits of \<open>n\<close>,
  \<open>binaryExponent q\<close> the integer \<open>e\<close> with \<open>2^e \<le> |q| < 2^(e+1)\<close>.
\<close>

function bitLength :: "int \<Rightarrow> nat" where
  "bitLength n = (if n \<le> 0 then 0 else Suc (bitLength (n div 2)))"
  by pat_completeness auto
termination
  by (relation "measure nat") auto

definition pow2 :: "int \<Rightarrow> number" where
  "pow2 k = (if 0 \<le> k then 2 ^ nat k else 1 / 2 ^ nat (- k))"

definition binaryExponent :: "number \<Rightarrow> int" where
  "binaryExponent q =
     (let (n, d) = quotient_of q;
          e0 = int (bitLength \<bar>n\<bar>) - int (bitLength d)
      in if pow2 e0 \<le> \<bar>q\<bar> then e0 else e0 - 1)"

definition roundHalfEven :: "number \<Rightarrow> int" where
  "roundHalfEven x =
     (let f = \<lfloor>x\<rfloor>; r = x - of_int f
      in if r < 1 / 2 then f else if 1 / 2 < r then f + 1 else if even f then f else f + 1)"

definition roundDouble :: "number \<Rightarrow> number" where
  "roundDouble q =
     (if q = 0 then 0
      else let u = pow2 (max (binaryExponent q - 52) (- 1074))
           in of_int (roundHalfEven (q / u)) * u)"

section \<open>calculatePeriodFinancials (utils/helpers.ts)\<close>

text \<open>The body of both \<open>forEach\<close> loops over the entries of the selected transactions.\<close>

definition addChange :: "js_map \<Rightarrow> JournalEntry \<Rightarrow> js_map" where
  "addChange m e =
     (let change = debit e - credit e
      in Map_set m (account_code e) (or0 (Map_get m (account_code e)) + change))"

definition addChanges :: "js_map \<Rightarrow> Transaction list \<Rightarrow> js_map" where
  "addChanges m txs = foldl (\<lambda>m tx. foldl addChange m (entries tx)) m txs"

definition periodChanges :: "Account list \<Rightarrow> Transaction list \<Rightarrow> Period \<Rightarrow> js_map" where
  "periodChanges accounts transactions period =
     addChanges (Map_new (map (\<lambda>a. (code a, 0)) accounts))
       (filter (\<lambda>tx. period_start period \<le> date tx \<and> date tx \<le> period_end period) transactions)"

definition openingBalances :: "Account list \<Rightarrow> Transaction list \<Rightarrow> Period \<Rightarrow> js_map" where
  "openingBalances accounts transactions period =
     addChanges (Map_new (map (\<lambda>a. (code a, 0)) accounts))
       (filter (\<lambda>tx. date tx < period_start period) transactions)"

definition closingBalances :: "Account list \<Rightarrow> Transaction list \<Rightarrow> Period \<Rightarrow> js_map" where
  "closingBalances accounts transactions period =
     foldl (\<lambda>m a.
        let opening = or0 (Map_get (openingBalances accounts transactions period) (code a));
            change = or0 (Map_get (periodChanges accounts transactions period) (code a))
        in Map_set m (code a) (opening + change)) [] accounts"

record CashFlow =
  startCash :: number
  endCash :: number
  netChange :: number

record FinancialReport =
  revenues :: "Account list"
  totalRevenue :: number
  expenses :: "Account list"
  totalExpense :: number
  netIncome :: number
  assets :: "Account list"
  totalAssets :: number
  liabilities :: "Account list"
  totalLiabilities :: number
  equity :: "Account list"
  totalEquity :: number
  equityWithPL :: "Account list"
  totalEquityWithPL :: number
  totalLiabilitiesAndEquity :: number
  isBalanced :: bool
  cashFlow :: CashFlow

text \<open>\<open>xs.reduce((s, a) => s + a.balance, 0)\<close>.\<close>

definition sumBalance :: "Account list \<Rightarrow> number" where
  "sumBalance xs = foldl (\<lambda>s a. s + balance a) 0 xs"

definition calculatePeriodFinancials ::
  "Account list \<Rightarrow> Transaction list \<Rightarrow> Period \<Rightarrow> FinancialReport" where
  "calculatePeriodFinancials accounts transactions period =
     (let pc = periodChanges accounts transactions period;
          ob = openingBalances accounts transactions period;
          revenues' = map (\<lambda>a. a\<lparr>balance := - or0 (Map_get pc (code a))\<rparr>)
                        (filter (\<lambda>a. atype a = Pendapatan) accounts);
          expenses' = map (\<lambda>a. a\<lparr>balance := or0 (Map_get pc (code a))\<rparr>)
                        (filter (\<lambda>a. atype a = Beban) accounts);
          totalRevenue' = sumBalance revenues';
          totalExpense' = sumBalance expenses';
          netIncome' = totalRevenue' - totalExpense';
          cb = closingBalances accounts transactions period;
          assets' = map (\<lambda>a. a\<lparr>balance := or0 (Map_get cb (code a))\<rparr>)
                      (filter (\<lambda>a. atype a = Aset) accounts);
          liabilities' = map (\<lambda>a. a\<lparr>balance := - or0 (Map_get cb (code a))\<rparr>)
                           (filter (\<lambda>a. atype a = Liabilitas) accounts);
          equity' = map (\<lambda>a. a\<lparr>balance := - or0 (Map_get cb (code a))\<rparr>)
                      (filter (\<lambda>a. atype a = Modal) accounts);
          equityWithPL' = map (\<lambda>a. if code a = ''3200''
                                     then a\<lparr>balance := balance a + netIncome'\<rparr> else a) equity';
          totalAssets' = foldl (\<lambda>s a. s + (if str_includes (toLowerCase (name a)) ''akumulasi''
                                             then - balance a else balance a)) 0 assets';
          totalLiabilities' = sumBalance liabilities';
          totalEquity' = sumBalance equity';
          totalEquityWithPL' = sumBalance equityWithPL';
          totalLiabilitiesAndEquity' = totalLiabilities' + totalEquityWithPL';
          cashAccountCodes = map code
             (filter (\<lambda>a. atype a = Aset \<and>
                           (str_includes (toLowerCase (name a)) ''kas'' \<or>
                            str_includes (toLowerCase (name a)) ''bank'')) accounts);
          startCash' = foldl (\<lambda>s c. s + or0 (Map_get ob c)) 0 cashAccountCodes;
          endCash' = foldl (\<lambda>s c. s + or0 (Map_get cb c)) 0 cashAccountCodes;
          netChange' = endCash' - startCash'
      in \<lparr> revenues = revenues', totalRevenue = totalRevenue',
           expenses = expenses', totalExpense = totalExpense', netIncome = netIncome',
           assets = assets', totalAssets = totalAssets',
           liabilities = liabilities', totalLiabilities = totalLiabilities',
           equity = equity', totalEquity = totalEquity',
           equityWithPL = equityWithPL', totalEquityWithPL = totalEquityWithPL',
           totalLiabilitiesAndEquity = totalLiabilitiesAndEquity',
           isBalanced = (\<bar>totalAssets' - totalLiabilitiesAndEquity'\<bar> < 0.01),
           cashFlow = \<lparr> startCash = startCash', endCash = endCash', netChange = netChange' \<rparr> \<rparr>)"

subsection \<open>calculatePeriodFinancials with the rounding of doubles\<close>

text \<open>
  The same function with every \<open>+\<close> and binary \<open>-\<close> of the source rounded by \<open>fl\<close>. The
  unary minus of a double is exact. The literal \<open>0.01\<close> is the double nearest to \<open>1/100\<close>.
  \<open>lower\<close> is \<open>String.prototype.toLowerCase\<close>.
\<close>

definition addChange_fl :: "(number \<Rightarrow> number) \<Rightarrow> js_map \<Rightarrow> JournalEntry \<Rightarrow> js_map" where
  "addChange_fl fl m e =
     (let change = fl (debit e - credit e)
      in Map_set m (account_code e) (fl (or0 (Map_get m (account_code e)) + change)))"

definition addChanges_fl :: "(number \<Rightarrow> number) \<Rightarrow> js_map \<Rightarrow> Transaction list \<Rightarrow> js_map" where
  "addChanges_fl fl m txs = foldl (\<lambda>m tx. foldl (addChange_fl fl) m (entries tx)) m txs"

definition periodChanges_fl ::
  "(number \<Rightarrow> number) \<Rightarrow> Account list \<Rightarrow> Transaction list \<Rightarrow> Period \<Rightarrow> js_map" where
  "periodChanges_fl fl accounts transactions period =
     addChanges_fl fl (Map_new (map (\<lambda>a. (code a, 0)) accounts))
       (filter (\<lambda>tx. period_start period \<le> date tx \<and> date tx \<le> period_end period) transactions)"

definition openingBalances_fl ::
  "(number \<Rightarrow> number) \<Rightarrow> Account list \<Rightarrow> Transaction list \<Rightarrow> Period \<Rightarrow> js_map" where
  "openingBalances_fl fl accounts transactions period =
     addChanges_fl fl (Map_new (map (\<lambda>a. (code a, 0)) accounts))
       (filter (\<lambda>tx. date tx < period_start period) transactions)"

definition closingBalances_fl ::
  "(number \<Rightarrow> number) \<Rightarrow> Account list \<Rightarrow> Transaction list \<Rightarrow> Period \<Rightarrow> js_map" where
  "closingBalances_fl fl accounts transactions period =
     foldl (\<lambda>m a.
        let opening = or0 (Map_get (openingBalances_fl fl accounts transactions period) (code a));
            change = or0 (Map_get (periodChanges_fl fl accounts transactions period) (code a))
        in Map_set m (code a) (fl (opening + change))) [] accounts"

definition sumBalance_fl :: "(number \<Rightarrow> number) \<Rightarrow> Account list \<Rightarrow> number" where
  "sumBalance_fl fl xs = foldl (\<lambda>s a. fl (s + balance a)) 0 xs"

definition calculatePeriodFinancials_fl ::
  "(number \<Rightarrow> number) \<Rightarrow> (string \<Rightarrow> string) \<Rightarrow>
   Account list \<Rightarrow> Transaction list \<Rightarrow> Period \<Rightarrow> FinancialReport" where
  "calculatePeriodFinancials_fl fl lower accounts transactions period =
     (let pc = periodChanges_fl fl accounts transactions period;
          ob = openingBalances_fl fl accounts transactions period;
          revenues' = map (\<lambda>a. a\<lparr>balance := - or0 (Map_get pc (code a))\<rparr>)
                        (filter (\<lambda>a. atype a = Pendapatan) accounts);
          expenses' = map (\<lambda>a. a\<lparr>balance := or0 (Map_get pc (code a))\<rparr>)
                        (filter (\<lambda>a. atype a = Beban) accounts);
          totalRevenue' = sumBalance_fl fl revenues';
          totalExpense' = sumBalance_fl fl expenses';
          netIncome' = fl (totalRevenue' - totalExpense');
          cb = closingBalances_fl fl accounts transactions period;
          assets' = map (\<lambda>a. a\<lparr>balance := or0 (Map_get cb (code a))\<rparr>)
                      (filter (\<lambda>a. atype a = Aset) accounts);
          liabilities' = map (\<lambda>a. a\<lparr>balance := - or0 (Map_get cb (code a))\<rparr>)
                           (filter (\<lambda>a. atype a = Liabilitas) accounts);
          equity' = map (\<lambda>a. a\<lparr>balance := - or0 (Map_get cb (code a))\<rparr>)
                      (filter (\<lambda>a. atype a = Modal) accounts);
          equityWithPL' = map (\<lambda>a. if code a = ''3200''
                                     then a\<lparr>balance := fl (balance a + netIncome')\<rparr> else a) equity';
          totalAssets' = foldl (\<lambda>s a. fl (s + (if str_includes (lower (name a)) ''akumulasi''
                                                 then - balance a else balance a))) 0 assets';
          totalLiabilities' = sumBalance_fl fl liabilities';
          totalEquity' = sumBalance_fl fl equity';
          totalEquityWithPL' = sumBalance_fl fl equityWithPL';
          totalLiabilitiesAndEquity' = fl (totalLiabilities' + totalEquityWithPL');
          cashAccountCodes = map code
             (filter (\<lambda>a. atype a = Aset \<and>
                           (str_includes (lower (name a)) ''kas'' \<or>
                            str_includes (lower (name a)) ''bank'')) accounts);
          startCash' = foldl (\<lambda>s c. fl (s + or0 (Map_get ob c))) 0 cashAccountCodes;
          endCash' = foldl (\<lambda>s c. fl (s + or0 (Map_get cb c))) 0 cashAccountCodes;
          netChange' = fl (endCash' - startCash')
      in \<lparr> revenues = revenues', totalRevenue = totalRevenue',
           expenses = expenses', totalExpense = totalExpense', netIncome = netIncome',
           assets = assets', totalAssets = totalAssets',
           liabilities = liabilities', totalLiabilities = totalLiabilities',
           equity = equity', totalEquity = totalEquity',
           equityWithPL = equityWithPL', totalEquityWithPL = totalEquityWithPL',
           totalLiabilitiesAndEquity = totalLiabilitiesAndEquity',
           isBalanced = (\<bar>fl (totalAssets' - totalLiabilitiesAndEquity')\<bar> < fl (1 / 100)),
           cashFlow = \<lparr> startCash = startCash', endCash = endCash', netChange = netChange' \<rparr> \<rparr>)"

section \<open>Account balance updates (contexts/DataContext.tsx)\<close>

text \<open>
  The \<open>forEach\<close> body that fills \<open>accountUpdates\<close> in \<open>addTransactionsBatch\<close>: the account is
  looked up in the \<open>accounts\<close> of the component state, an entry without account is left out.
\<close>

definition isContraAsset :: "Account \<Rightarrow> bool" where
  "isContraAsset account =
     (atype account = Aset \<and> str_includes (toLowerCase (name account)) ''akumulasi penyusutan'')"

definition entryChange :: "Account \<Rightarrow> JournalEntry \<Rightarrow> number" where
  "entryChange account entry =
     (if (atype account = Aset \<or> atype account = Beban) \<and> \<not> isContraAsset account
      then debit entry - credit entry
      else credit entry - debit entry)"

definition addUpdate :: "Account list \<Rightarrow> js_map \<Rightarrow> JournalEntry \<Rightarrow> js_map" where
  "addUpdate accounts accountUpdates entry =
     (let currentChange = or0 (Map_get accountUpdates (account_code entry))
      in case find (\<lambda>a. code a = account_code entry) accounts of
           None \<Rightarrow> accountUpdates
         | Some account \<Rightarrow>
             Map_set accountUpdates (account_code entry) (currentChange + entryChange account entry))"

definition creationUpdates :: "Account list \<Rightarrow> JournalEntry list \<Rightarrow> js_map" where
  "creationUpdates accounts es = foldl (addUpdate accounts) [] es"

text \<open>The same loop in \<open>deleteTransaction\<close>, which subtracts the change.\<close>

definition removeUpdate :: "Account list \<Rightarrow> js_map \<Rightarrow> JournalEntry \<Rightarrow> js_map" where
  "removeUpdate accounts accountUpdates entry =
     (let currentChange = or0 (Map_get accountUpdates (account_code entry))
      in case find (\<lambda>a. code a = account_code entry) accounts of
           None \<Rightarrow> accountUpdates
         | Some account \<Rightarrow>
             Map_set accountUpdates (account_code entry) (currentChange - entryChange account entry))"

definition deletionUpdates :: "Account list \<Rightarrow> JournalEntry list \<Rightarrow> js_map" where
  "deletionUpdates accounts es = foldl (removeUpdate accounts) [] es"

text \<open>
  Modelled from the spec: the remote procedure \<open>update_account_balance\<close> is a function of the
  database and not part of the sources. The spec describes it as an atomic increment of one
  account's balance; an account code without row changes nothing.
\<close>

definition update_account_balance :: "string \<Rightarrow> number \<Rightarrow> Account list \<Rightarrow> Account list" where
  "update_account_balance p_code p_amount tbl =
     map (\<lambda>a. if code a = p_code then a\<lparr>balance := balance a + p_amount\<rparr> else a) tbl"

text \<open>One remote call for each pair of \<open>accountUpdates\<close>, in the order of the map.\<close>

definition applyUpdates :: "js_map \<Rightarrow> Account list \<Rightarrow> Account list" where
  "applyUpdates accountUpdates tbl =
     foldl (\<lambda>t (c, balanceChange). update_account_balance c balanceChange t) tbl accountUpdates"

subsection \<open>The database and the operations on it\<close>

text \<open>
  The remote database holds the accounts and the transactions with their journal entries.
  Whether a remote insert, update or delete succeeds is decided outside the program, so the
  reply is an argument of each operation. The identifier of a new transaction is chosen by
  the database and comes with the reply; identifiers of journal entries are left unset.
  The \<open>accounts\<close> and \<open>transactions\<close> arguments are the component state the operation closes
  over: it changes only when the data is fetched again, not while the operation runs.
\<close>

record Db =
  accounts_table :: "Account list"
  transactions_table :: "Transaction list"

datatype DbError = NotLoggedIn | TransactionNotFound | QueryError

datatype InsertReply = HeaderRejected | EntriesRejected | Stored string

text \<open>
  One round of the loop of \<open>addTransactionsBatch\<close>. The header is a \<open>Transaction\<close> whose
  identifier and entries are not read. When the entries are rejected the header is deleted
  again, which leaves the database as it was.
\<close>

definition addOne ::
  "Account list \<Rightarrow> Transaction \<Rightarrow> JournalEntry list \<Rightarrow> InsertReply \<Rightarrow> Db \<Rightarrow> (DbError + Transaction) \<times> Db" where
  "addOne accounts transaction es reply db =
     (case reply of
        HeaderRejected \<Rightarrow> (Inl QueryError, db)
      | EntriesRejected \<Rightarrow> (Inl QueryError, db)
      | Stored new_id \<Rightarrow>
          (let entriesData = map (\<lambda>e. e\<lparr>transaction_id := Some new_id\<rparr>) es;
               newFullTransaction = transaction\<lparr>tx_id := Some new_id, entries := entriesData\<rparr>;
               accountUpdates = creationUpdates accounts es
           in (Inr newFullTransaction,
               db\<lparr>transactions_table := transactions_table db @ [newFullTransaction],
                  accounts_table := applyUpdates accountUpdates (accounts_table db)\<rparr>)))"

fun addTransactionsLoop ::
  "Account list \<Rightarrow> ((Transaction \<times> JournalEntry list) \<times> InsertReply) list \<Rightarrow> Transaction list \<Rightarrow> Db
     \<Rightarrow> (DbError + Transaction list) \<times> Db" where
  "addTransactionsLoop accounts [] newTransactionsResult db = (Inr newTransactionsResult, db)"
| "addTransactionsLoop accounts (((transaction, es), reply) # rest) newTransactionsResult db =
     (case addOne accounts transaction es reply db of
        (Inl err, db') \<Rightarrow> (Inl err, db')
      | (Inr newFullTransaction, db') \<Rightarrow>
          addTransactionsLoop accounts rest (newTransactionsResult @ [newFullTransaction]) db')"

definition addTransactionsBatch ::
  "Account list \<Rightarrow> ((Transaction \<times> JournalEntry list) \<times> InsertReply) list \<Rightarrow> Db
     \<Rightarrow> (DbError + Transaction list) \<times> Db" where
  "addTransactionsBatch accounts transactionsData db =
     addTransactionsLoop accounts transactionsData [] db"

definition addTransaction ::
  "Account list \<Rightarrow> Transaction \<Rightarrow> JournalEntry list \<Rightarrow> InsertReply \<Rightarrow> Db
     \<Rightarrow> (DbError + Transaction) \<times> Db" where
  "addTransaction accounts transaction es reply db =
     (case addTransactionsBatch accounts [((transaction, es), reply)] db of
        (Inl err, db') \<Rightarrow> (Inl err, db')
      | (Inr [], db') \<Rightarrow> (Inl QueryError, db')
      | (Inr (newTx # _), db') \<Rightarrow> (Inr newTx, db'))"

definition updateTransaction :: "string \<Rightarrow> Transaction \<Rightarrow> bool \<Rightarrow> Db \<Rightarrow> (DbError + unit) \<times> Db" where
  "updateTransaction ident updates ok db =
     (if \<not> ok then (Inl QueryError, db)
      else (Inr (),
            db\<lparr>transactions_table :=
                 map (\<lambda>t. if tx_id t = Some ident
                           then t\<lparr>date := date updates, ref := ref updates,
                                  tx_description := tx_description updates\<rparr>
                           else t) (transactions_table db)\<rparr>))"

definition deleteTransaction ::
  "Account list \<Rightarrow> Transaction list \<Rightarrow> string \<Rightarrow> bool \<Rightarrow> Db \<Rightarrow> (DbError + unit) \<times> Db" where
  "deleteTransaction accounts transactions ident ok db =
     (case find (\<lambda>t. tx_id t = Some ident) transactions of
        None \<Rightarrow> (Inl TransactionNotFound, db)
      | Some transactionToDelete \<Rightarrow>
          (let accountUpdates = deletionUpdates accounts (entries transactionToDelete);
               db' = db\<lparr>accounts_table := applyUpdates accountUpdates (accounts_table db)\<rparr>
           in if \<not> ok then (Inl QueryError, db')
              else (Inr (),
                    db'\<lparr>transactions_table :=
                          filter (\<lambda>t. tx_id t \<noteq> Some ident) (transactions_table db')\<rparr>)))"

text \<open>
  \<open>addAccountsBatch\<close> and \<open>addAccount\<close>. The optional \<open>balance\<close> of the argument is the
  \<open>balance\<close> field of the record: \<open>account.balance || 0\<close> reads an absent balance as \<open>0\<close>.
\<close>

definition addAccountsBatch ::
  "bool \<Rightarrow> Account list \<Rightarrow> bool \<Rightarrow> Db \<Rightarrow> (DbError + Account list) \<times> Db" where
  "addAccountsBatch logged_in accountsToAdd ok db =
     (if \<not> logged_in then (Inl NotLoggedIn, db)
      else let accountsToInsert = map (\<lambda>acc. acc\<lparr>balance := 0\<rparr>) accountsToAdd
           in if \<not> ok then (Inl QueryError, db)
              else (Inr accountsToInsert,
                    db\<lparr>accounts_table := accounts_table db @ accountsToInsert\<rparr>))"

definition addAccount ::
  "Account list \<Rightarrow> bool \<Rightarrow> string \<Rightarrow> Account \<Rightarrow> bool \<Rightarrow> InsertReply \<Rightarrow> Db \<Rightarrow> (DbError + unit) \<times> Db" where
  "addAccount accounts logged_in today account ok reply db =
     (let openingBalance = balance account
      in case addAccountsBatch logged_in [account] ok db of
           (Inl err, db') \<Rightarrow> (Inl err, db')
         | (Inr [], db') \<Rightarrow> (Inr (), db')
         | (Inr (newAccount # _), db') \<Rightarrow>
             if openingBalance \<noteq> 0 then
               (let isDebitNormal = (atype newAccount = Aset \<or> atype newAccount = Beban)
                in case addTransaction accounts
                     \<lparr>tx_id = None, date = today, ref = ''SALDO-AWAL'',
                      tx_description = ''Saldo Awal untuk Akun '' @ code newAccount, entries = []\<rparr>
                     [\<lparr>entry_id = None, transaction_id = None, account_code = code newAccount,
                       debit = (if isDebitNormal then openingBalance else 0),
                       credit = (if \<not> isDebitNormal then openingBalance else 0)\<rparr>,
                      \<lparr>entry_id = None, transaction_id = None, account_code = ''3999'',
                       debit = (if \<not> isDebitNormal then openingBalance else 0),
                       credit = (if isDebitNormal then openingBalance else 0)\<rparr>]
                     reply db' of
                     (Inl err, db'') \<Rightarrow> (Inl err, db'')
                   | (Inr _, db'') \<Rightarrow> (Inr (), db''))
             else (Inr (), db'))"

section \<open>Submitting and importing transactions (features/Transactions.tsx)\<close>

subsection \<open>The transaction form\<close>

text \<open>
  The totals of the form and its \<open>isBalanced\<close> flag (\<open>useMemo\<close>). The amounts of the rows are
  numbers, for which \<open>Number(x) || 0\<close> is \<open>x\<close>; each \<open>+=\<close> rounds with \<open>fl\<close>.
\<close>

definition formTotals :: "(number \<Rightarrow> number) \<Rightarrow> JournalEntry list \<Rightarrow> number \<times> number" where
  "formTotals fl es =
     foldl (\<lambda>(d, c) entry. (fl (d + debit entry), fl (c + credit entry))) (0, 0) es"

definition formIsBalanced :: "(number \<Rightarrow> number) \<Rightarrow> JournalEntry list \<Rightarrow> bool" where
  "formIsBalanced fl es =
     (fst (formTotals fl es) > 0 \<and> fst (formTotals fl es) = snd (formTotals fl es))"

datatype SubmitResult = Rejected | Saved | SaveFailed

text \<open>\<open>if (id)\<close>: an absent or empty identifier is falsy.\<close>

definition editedId :: "Transaction \<Rightarrow> string option" where
  "editedId formData =
     (case tx_id formData of
        None \<Rightarrow> None
      | Some ident \<Rightarrow> if ident \<noteq> [] then Some ident else None)"

text \<open>
  \<open>handleSubmit\<close>: the form data is a \<open>Transaction\<close>, with an identifier when an existing
  transaction is edited. An error of the save is caught and shown.
\<close>

definition handleSubmit ::
  "(number \<Rightarrow> number) \<Rightarrow> Account list \<Rightarrow> bool \<Rightarrow> Transaction \<Rightarrow> bool \<Rightarrow> InsertReply \<Rightarrow> Db
     \<Rightarrow> SubmitResult \<times> Db" where
  "handleSubmit fl accounts canEdit formData ok reply db =
     (if \<not> formIsBalanced fl (entries formData) then (Rejected, db)
      else case editedId formData of
             Some ident \<Rightarrow>
               (if \<not> canEdit then (SaveFailed, db)
                else case updateTransaction ident formData ok db of
                       (Inl err, db') \<Rightarrow> (SaveFailed, db')
                     | (Inr _, db') \<Rightarrow> (Saved, db'))
           | None \<Rightarrow>
               (let validEntries = filter (\<lambda>e. account_code e \<noteq> [] \<and> (debit e > 0 \<or> credit e > 0))
                                     (entries formData)
                in case addTransaction accounts formData validEntries reply db of
                     (Inl err, db') \<Rightarrow> (SaveFailed, db')
                   | (Inr newTx, db') \<Rightarrow> (Saved, db')))"

subsection \<open>The import of a spreadsheet\<close>

text \<open>
  A row of the parsed sheet, with the columns the import reads. The text cells are strings
  and the amounts are numbers, for which \<open>Number(x) || 0\<close> is \<open>x\<close>; a sheet with an absent
  text cell is outside the model.
\<close>

record ImportRow =
  Tanggal :: string
  Deskripsi :: string
  Ref :: string
  Kode_Akun :: string
  Debit :: number
  Kredit :: number

text \<open>
  The rows are grouped by date, description and reference, in a \<open>Map\<close> from the key to the
  rows of the group, in the order in which the keys first occur.
\<close>

definition groupKey :: "ImportRow \<Rightarrow> string" where
  "groupKey row = Tanggal row @ ''-'' @ Deskripsi row @ ''-'' @ Ref row"

definition addToGroup :: "(string \<times> ImportRow list) list \<Rightarrow> ImportRow \<Rightarrow> (string \<times> ImportRow list) list" where
  "addToGroup grouped row =
     (let key = groupKey row
      in case map_of grouped key of
           None \<Rightarrow> grouped @ [(key, [row])]
         | Some rows \<Rightarrow> AList.update key (rows @ [row]) grouped)"

definition groupRows :: "ImportRow list \<Rightarrow> (string \<times> ImportRow list) list" where
  "groupRows parsedData = foldl addToGroup [] parsedData"

text \<open>The errors thrown while the groups are checked; each carries the text it names.\<close>

datatype ImportError = AccountNotFound string | NotBalanced string | InvalidDate string | NoRows

text \<open>
  \<open>rows.map\<close> over the rows of one group: the totals are added up row by row, and the first
  row whose account code belongs to no account throws.
\<close>

fun importEntries ::
  "(number \<Rightarrow> number) \<Rightarrow> Account list \<Rightarrow> ImportRow list \<Rightarrow> number \<times> number
     \<Rightarrow> ImportError + (JournalEntry list \<times> number \<times> number)" where
  "importEntries fl accounts [] (totalDebit, totalCredit) = Inr ([], totalDebit, totalCredit)"
| "importEntries fl accounts (row # rows) (totalDebit, totalCredit) =
     (let totalDebit' = fl (totalDebit + Debit row);
          totalCredit' = fl (totalCredit + Kredit row)
      in if \<not> list_ex (\<lambda>a. code a = Kode_Akun row) accounts
         then Inl (AccountNotFound (Kode_Akun row))
         else case importEntries fl accounts rows (totalDebit', totalCredit') of
                Inl err \<Rightarrow> Inl err
              | Inr (es, totals) \<Rightarrow>
                  Inr (\<lparr>entry_id = None, transaction_id = None, account_code = Kode_Akun row,
                        debit = Debit row, credit = Kredit row\<rparr> # es, totals))"

text \<open>
  The body of the loop over the groups. \<open>parseDate\<close> is \<open>new Date(x)\<close> followed by
  \<open>toISOString().split('T')[0]\<close>, and \<open>None\<close> for an invalid date. A group without rows does
  not occur; reading its first row would throw.
\<close>

definition importGroup ::
  "(number \<Rightarrow> number) \<Rightarrow> (string \<Rightarrow> string option) \<Rightarrow> Account list \<Rightarrow> ImportRow list
     \<Rightarrow> ImportError + (Transaction \<times> JournalEntry list)" where
  "importGroup fl parseDate accounts rows =
     (case importEntries fl accounts rows (0, 0) of
        Inl err \<Rightarrow> Inl err
      | Inr (es, totalDebit, totalCredit) \<Rightarrow>
          (case rows of
             [] \<Rightarrow> Inl NoRows
           | first # _ \<Rightarrow>
               if \<bar>fl (totalDebit - totalCredit)\<bar> > fl (1 / 100)
               then Inl (NotBalanced (Deskripsi first))
               else case parseDate (Tanggal first) of
                      None \<Rightarrow> Inl (InvalidDate (Deskripsi first))
                    | Some d \<Rightarrow>
                        Inr (\<lparr>tx_id = None, date = d, ref = Ref first,
                              tx_description = Deskripsi first, entries = []\<rparr>, es)))"

fun importGroups ::
  "(number \<Rightarrow> number) \<Rightarrow> (string \<Rightarrow> string option) \<Rightarrow> Account list
     \<Rightarrow> (string \<times> ImportRow list) list \<Rightarrow> ImportError + (Transaction \<times> JournalEntry list) list" where
  "importGroups fl parseDate accounts [] = Inr []"
| "importGroups fl parseDate accounts ((key, rows) # rest) =
     (case importGroup fl parseDate accounts rows of
        Inl err \<Rightarrow> Inl err
      | Inr transactionData \<Rightarrow>
          (case importGroups fl parseDate accounts rest of
             Inl err \<Rightarrow> Inl err
           | Inr transactionsData \<Rightarrow> Inr (transactionData # transactionsData)))"

text \<open>
  The \<open>useMemo\<close> that gives \<open>transactionsToImport\<close> and \<open>validationError\<close>: \<open>Inl\<close> is a
  validation error with no transaction to import, \<open>Inr\<close> the transactions with no error.
\<close>

definition transactionsToImport ::
  "(number \<Rightarrow> number) \<Rightarrow> (string \<Rightarrow> string option) \<Rightarrow> Account list \<Rightarrow> ImportRow list
     \<Rightarrow> ImportError + (Transaction \<times> JournalEntry list) list" where
  "transactionsToImport fl parseDate accounts parsedData =
     (if parsedData = [] then Inr []
      else importGroups fl parseDate accounts (groupRows parsedData))"

datatype ImportResult = NotImported | Imported | ImportFailed

text \<open>
  \<open>handleImport\<close>: \<open>replies i\<close> is the reply of the database to the insert of the
  transaction at position \<open>i\<close>.
\<close>

definition handleImport ::
  "(number \<Rightarrow> number) \<Rightarrow> (string \<Rightarrow> string option) \<Rightarrow> Account list \<Rightarrow> ImportRow list
     \<Rightarrow> (nat \<Rightarrow> InsertReply) \<Rightarrow> Db \<Rightarrow> ImportResult \<times> Db" where
  "handleImport fl parseDate accounts parsedData replies db =
     (case transactionsToImport fl parseDate accounts parsedData of
        Inl validationError \<Rightarrow> (NotImported, db)
      | Inr transactionsData \<Rightarrow>
          if transactionsData = [] then (NotImported, db)
          else case addTransactionsBatch accounts
                      (zip transactionsData (map replies [0..<length transactionsData])) db of
                 (Inl err, db') \<Rightarrow> (ImportFailed, db')
               | (Inr _, db') \<Rightarrow> (Imported, db'))"

section \<open>Notions of the specification\<close>

text \<open>The two date ranges of a report: inside the period, and strictly before its start.\<close>

definition inPeriod :: "Period \<Rightarrow> Transaction \<Rightarrow> bool" where
  "inPeriod p tx = (period_start p \<le> date tx \<and> date tx \<le> period_end p)"

definition beforePeriod :: "Period \<Rightarrow> Transaction \<Rightarrow> bool" where
  "beforePeriod p tx = (date tx < period_start p)"

text \<open>
  The specification's balance of an account over some transactions: the sum of
  \<open>debit - credit\<close> over all their entries with that account code.
\<close>

definition movement :: "Transaction list \<Rightarrow> string \<Rightarrow> number" where
  "movement txs c =
     sum_list (map (\<lambda>e. debit e - credit e)
       (filter (\<lambda>e. account_code e = c) (concat (map entries txs))))"

text \<open>A transaction is balanced when its debits and its credits have the same sum.\<close>

definition txBalanced :: "Transaction \<Rightarrow> bool" where
  "txBalanced tx = (sum_list (map debit (entries tx)) = sum_list (map credit (entries tx)))"


text \<open>
  Amounts in whole currency units, and the sum of the absolute amounts of all entries: when
  this sum is at most \<open>2^53\<close>, no sum or difference the report forms leaves the range in
  which doubles are exact.
\<close>

definition wholeEntry :: "JournalEntry \<Rightarrow> bool" where
  "wholeEntry e = (isWhole (debit e) \<and> isWhole (credit e))"

definition wholeLedger :: "Transaction list \<Rightarrow> bool" where
  "wholeLedger txs = list_all (\<lambda>tx. list_all wholeEntry (entries tx)) txs"

definition absChange :: "JournalEntry \<Rightarrow> number" where
  "absChange e = \<bar>debit e\<bar> + \<bar>credit e\<bar>"

definition absSum :: "Transaction list \<Rightarrow> number" where
  "absSum txs = sum_list (map absChange (concat (map entries txs)))"

text \<open>The totals of the rows of one group of the import, as the import adds them up.\<close>

definition importTotals :: "(number \<Rightarrow> number) \<Rightarrow> ImportRow list \<Rightarrow> number \<times> number" where
  "importTotals fl rows =
     foldl (\<lambda>(d, c) row. (fl (d + Debit row), fl (c + Kredit row))) (0, 0) rows"

text \<open>
  The specification's delta of an account for the entries of one transaction: netted over
  the entries of the account, \<open>debit - credit\<close> for a debit-normal account and
  \<open>credit - debit\<close> otherwise.
\<close>

definition isDebitNormal :: "Account \<Rightarrow> bool" where
  "isDebitNormal account =
     ((atype account = Aset \<or> atype account = Beban) \<and> \<not> isContraAsset account)"


text \<open>Transactions without the entries whose account code belongs to no account.\<close>

definition knownEntries :: "Account list \<Rightarrow> Transaction \<Rightarrow> Transaction" where
  "knownEntries accounts tx =
     tx\<lparr>entries := filter (\<lambda>e. account_code e \<in> code ` set accounts) (entries tx)\<rparr>"

definition dropUnknown :: "Account list \<Rightarrow> Transaction list \<Rightarrow> Transaction list" where
  "dropUnknown accounts txs = map (knownEntries accounts) txs"

subsection \<open>Abbreviating definitions for the proofs\<close>

definition lookupAccount :: "Account list \<Rightarrow> string \<Rightarrow> Account option" where
  "lookupAccount accounts c = find (\<lambda>a. code a = c) accounts"


definition storedTransaction :: "Transaction \<Rightarrow> string \<Rightarrow> JournalEntry list \<Rightarrow> Transaction" where
  "storedTransaction transaction new_id es =
     transaction\<lparr>tx_id := Some new_id, entries := map (\<lambda>e. e\<lparr>transaction_id := Some new_id\<rparr>) es\<rparr>"

definition negated :: "js_map \<Rightarrow> js_map" where
  "negated m = map (\<lambda>(c, d). (c, - d)) m"

definition closingOf :: "Account list \<Rightarrow> Transaction list \<Rightarrow> Period \<Rightarrow> string \<Rightarrow> number" where
  "closingOf accounts txs p k = or0 (Map_get (closingBalances accounts txs p) k)"

definition changeOf :: "Account list \<Rightarrow> Transaction list \<Rightarrow> Period \<Rightarrow> string \<Rightarrow> number" where
  "changeOf accounts txs p k = or0 (Map_get (periodChanges accounts txs p) k)"

definition openingOf :: "Account list \<Rightarrow> Transaction list \<Rightarrow> Period \<Rightarrow> string \<Rightarrow> number" where
  "openingOf accounts txs p k = or0 (Map_get (openingBalances accounts txs p) k)"

definition ofType :: "AccountType \<Rightarrow> Account list \<Rightarrow> Account list" where
  "ofType t accounts = filter (\<lambda>a. atype a = t) accounts"

definition isAccumulated :: "Account \<Rightarrow> bool" where
  "isAccumulated a = str_includes (toLowerCase (name a)) ''akumulasi''"

definition weight :: "Transaction list \<Rightarrow> string \<Rightarrow> number" where
  "weight txs c = sum_list (map absChange (filter (\<lambda>e. account_code e = c) (concat (map entries txs))))"



section \<open>Example data\<close>

definition mkAccount :: "string \<Rightarrow> string \<Rightarrow> AccountType \<Rightarrow> string \<Rightarrow> Account" where
  "mkAccount c n t d = \<lparr>acc_id = None, code = c, name = n, atype = t, balance = 0, description = d\<rparr>"

definition mkEntry :: "string \<Rightarrow> number \<Rightarrow> number \<Rightarrow> JournalEntry" where
  "mkEntry c d k = \<lparr>entry_id = None, transaction_id = None, account_code = c, debit = d, credit = k\<rparr>"

definition mkTransaction :: "string \<Rightarrow> string \<Rightarrow> JournalEntry list \<Rightarrow> Transaction" where
  "mkTransaction d s es = \<lparr>tx_id = None, date = d, ref = [], tx_description = s, entries = es\<rparr>"

text \<open>The default chart of accounts of \<open>utils/helpers.ts\<close>.\<close>

definition defaultAccounts :: "Account list" where
  "defaultAccounts =
    [mkAccount ''1100'' ''Kas'' Aset ''Kas di tangan perusahaan'',
     mkAccount ''1200'' ''Bank'' Aset ''Rekening bank perusahaan'',
     mkAccount ''1300'' ''Piutang Dagang'' Aset ''Tagihan kepada pelanggan'',
     mkAccount ''1400'' ''Persediaan'' Aset ''Barang dagangan'',
     mkAccount ''1501'' ''Peralatan Kantor'' Aset ''Peralatan operasional kantor'',
     mkAccount ''1601'' ''Akum. Penyusutan - Peralatan Kantor'' Aset
       ''Akumulasi penyusutan peralatan kantor'',
     mkAccount ''1511'' ''Kendaraan'' Aset ''Kendaraan operasional'',
     mkAccount ''1611'' ''Akum. Penyusutan - Kendaraan'' Aset ''Akumulasi penyusutan kendaraan'',
     mkAccount ''2100'' ''Utang Dagang'' Liabilitas ''Utang kepada supplier'',
     mkAccount ''2200'' ''Utang Bank'' Liabilitas ''Pinjaman bank'',
     mkAccount ''2300'' ''Utang Pajak Penghasilan'' Liabilitas
       ''Utang pajak penghasilan yang belum dibayar'',
     mkAccount ''3100'' ''Modal Saham'' Modal ''Modal disetor pemegang saham'',
     mkAccount ''3200'' ''Laba Ditahan'' Modal ''Akumulasi laba yang ditahan'',
     mkAccount ''3999'' ''Modal Saldo Awal'' Modal ''Akun penyeimbang untuk saldo awal impor'',
     mkAccount ''4100'' ''Pendapatan Jasa Pendidikan'' Pendapatan ''Pendapatan dari jasa pendidikan'',
     mkAccount ''5100'' ''Beban Pokok Pendapatan'' Beban ''Biaya langsung terkait pendapatan'',
     mkAccount ''5200'' ''Beban Gaji'' Beban ''Gaji karyawan'',
     mkAccount ''5300'' ''Beban Sewa'' Beban ''Biaya sewa tempat usaha'',
     mkAccount ''5401'' ''Beban Penyusutan - Peralatan Kantor'' Beban
       ''Penyusutan aset peralatan kantor'',
     mkAccount ''5411'' ''Beban Penyusutan - Kendaraan'' Beban ''Penyusutan aset kendaraan'',
     mkAccount ''5500'' ''Beban Pajak Penghasilan'' Beban ''Beban pajak penghasilan badan'']"

definition year2024 :: Period where
  "year2024 = \<lparr>period_start = ''2024-01-01'', period_end = ''2024-12-31''\<rparr>"

definition txLoan :: Transaction where
  "txLoan = mkTransaction ''2023-12-20'' ''Pinjaman bank''
     [mkEntry ''1200'' 5000000 0, mkEntry ''2200'' 0 5000000]"

definition txRevenue :: Transaction where
  "txRevenue = mkTransaction ''2024-01-15'' ''Pendapatan jasa''
     [mkEntry ''1200'' 1000000 0, mkEntry ''4100'' 0 1000000]"

definition txSalary :: Transaction where
  "txSalary = mkTransaction ''2024-01-31'' ''Gaji''
     [mkEntry ''5200'' 400000 0, mkEntry ''1200'' 0 400000]"

definition txDepreciation :: Transaction where
  "txDepreciation = mkTransaction ''2024-01-31'' ''Penyusutan''
     [mkEntry ''5401'' 100000 0, mkEntry ''1601'' 0 100000]"

definition ledger2024 :: "Transaction list" where
  "ledger2024 = [txLoan, txRevenue, txSalary, txDepreciation]"

text \<open>The two accounts of the specification's scenario of a simple transaction.\<close>

definition scenarioAccounts :: "Account list" where
  "scenarioAccounts =
     [mkAccount ''1200'' ''Bank'' Aset [], mkAccount ''4100'' ''Revenue'' Pendapatan []]"

text \<open>A chart whose accumulated depreciation account carries the full word in its name.\<close>

definition contraChart :: "Account list" where
  "contraChart =
     [mkAccount ''1501'' ''Peralatan Kantor'' Aset [],
      mkAccount ''1601'' ''Akumulasi Penyusutan - Peralatan Kantor'' Aset [],
      mkAccount ''3200'' ''Laba Ditahan'' Modal [],
      mkAccount ''5401'' ''Beban Penyusutan - Peralatan Kantor'' Beban []]"

text \<open>An accumulated amortisation account, and a chart with it.\<close>

definition amortisationAccount :: Account where
  "amortisationAccount = mkAccount ''1701'' ''Akumulasi Amortisasi - Hak Cipta'' Aset []"

definition amortisationChart :: "Account list" where
  "amortisationChart =
     [amortisationAccount,
      mkAccount ''3200'' ''Laba Ditahan'' Modal [],
      mkAccount ''5402'' ''Beban Amortisasi'' Beban []]"

definition txAmortisation :: Transaction where
  "txAmortisation = mkTransaction ''2024-01-31'' ''Amortisasi''
     [mkEntry ''5402'' 100000 0, mkEntry ''1701'' 0 100000]"

text \<open>The unbalanced entries of the specification's import scenario.\<close>

definition unbalancedEntries :: "JournalEntry list" where
  "unbalancedEntries = [mkEntry ''1200'' 500000 0, mkEntry ''4100'' 0 400000]"

definition scenarioDb :: Db where
  "scenarioDb = \<lparr>accounts_table = scenarioAccounts, transactions_table = []\<rparr>"

text \<open>A new bank account with an opening balance, added to a chart of two accounts.\<close>

definition seedAccounts :: "Account list" where
  "seedAccounts =
     [mkAccount ''1200'' ''Bank'' Aset [], mkAccount ''3999'' ''Modal Saldo Awal'' Modal []]"

definition seedDb :: Db where
  "seedDb = \<lparr>accounts_table = seedAccounts, transactions_table = []\<rparr>"

definition newBankAccount :: Account where
  "newBankAccount = (mkAccount ''1250'' ''Bank BCA'' Aset [])\<lparr>balance := 500000\<rparr>"

text \<open>A new accumulated depreciation account with an opening balance.\<close>

definition newContraAccount :: Account where
  "newContraAccount =
     (mkAccount ''1621'' ''Akumulasi Penyusutan - Gedung'' Aset [])\<lparr>balance := 500000\<rparr>"

text \<open>Entries that touch one account twice and name an account that does not exist.\<close>

definition nettingEntries :: "JournalEntry list" where
  "nettingEntries =
     [mkEntry ''1200'' 1000000 0, mkEntry ''4100'' 0 1000000,
      mkEntry ''1200'' 0 250000, mkEntry ''9999'' 5 0]"

definition txStray :: Transaction where
  "txStray = mkTransaction ''2024-02-01'' ''Lain-lain''
     [mkEntry ''1200'' 700 0, mkEntry ''9999'' 0 700]"

definition txStrayKnown :: Transaction where
  "txStrayKnown = mkTransaction ''2024-02-01'' ''Lain-lain'' [mkEntry ''1200'' 700 0]"

definition unbalancedForm :: Transaction where
  "unbalancedForm = mkTransaction ''2024-01-15'' ''Impor'' unbalancedEntries"

text \<open>
  Amounts beyond the range in which whole numbers are doubles: a balanced transaction whose
  debits of \<open>1\<close>, \<open>2^53\<close> and \<open>1\<close> lose both units when they are added up in this order.
\<close>

definition txLarge :: Transaction where
  "txLarge = mkTransaction ''2024-03-01'' ''Setoran besar''
     [mkEntry ''1100'' 1 0, mkEntry ''1200'' (2 ^ 53) 0, mkEntry ''1300'' 1 0,
      mkEntry ''3100'' 0 (2 ^ 53 + 2)]"

text \<open>A form whose debits of \<open>2^53\<close> and \<open>1\<close> add up to \<open>2^53\<close> in doubles.\<close>

definition largeForm :: Transaction where
  "largeForm = mkTransaction ''2024-01-15'' ''Besar''
     [mkEntry ''1200'' (2 ^ 53) 0, mkEntry ''1200'' 1 0, mkEntry ''4100'' 0 (2 ^ 53)]"

text \<open>
  Rows of an imported sheet. The dates of the examples are ISO dates, which \<open>new Date\<close> and
  \<open>toISOString\<close> give back as they are.
\<close>

definition parseIsoDate :: "string \<Rightarrow> string option" where
  "parseIsoDate s = (if length s = 10 then Some s else None)"

definition mkRow :: "string \<Rightarrow> string \<Rightarrow> string \<Rightarrow> number \<Rightarrow> number \<Rightarrow> ImportRow" where
  "mkRow t s c d k = \<lparr>Tanggal = t, Deskripsi = s, Ref = [], Kode_Akun = c, Debit = d, Kredit = k\<rparr>"

text \<open>The specification's import scenario: a debit of 500,000 against a credit of 400,000.\<close>

definition unbalancedRows :: "ImportRow list" where
  "unbalancedRows =
     [mkRow ''2024-01-15'' ''Impor'' ''1200'' 500000 0,
      mkRow ''2024-01-15'' ''Impor'' ''4100'' 0 400000]"

text \<open>A group without amounts, and a group whose totals differ by \<open>1/128\<close>.\<close>

definition zeroRows :: "ImportRow list" where
  "zeroRows = [mkRow ''2024-01-15'' ''Kosong'' ''1200'' 0 0]"

definition nearRows :: "ImportRow list" where
  "nearRows =
     [mkRow ''2024-01-15'' ''Selisih'' ''1200'' 100 0,
      mkRow ''2024-01-15'' ''Selisih'' ''4100'' 0 (100 + 1 / 128)]"

section \<open>Properties\<close>

subsection \<open>Balances computed by calculatePeriodFinancials\<close>

lemma Map_get_set: "Map_get (Map_set m k v) k' = (if k' = k then Some v else Map_get m k')"
  by (simp add: Map_get_def Map_set_def update_conv')

lemma Map_get_empty: "Map_get [] k = None"
  by (simp add: Map_get_def)

lemma Map_get_addChange:
  "Map_get (addChange m e) k =
     (if k = account_code e then Some (or0 (Map_get m k) + (debit e - credit e)) else Map_get m k)"
  by (simp add: addChange_def Let_def Map_get_set)

lemma or0_foldl_addChange:
  "or0 (Map_get (foldl addChange m es) k) =
     or0 (Map_get m k) + sum_list (map (\<lambda>e. debit e - credit e) (filter (\<lambda>e. account_code e = k) es))"
  by (induction es arbitrary: m) (simp_all add: Map_get_addChange)

lemma present_foldl_addChange:
  "Map_get m k \<noteq> None \<Longrightarrow> Map_get (foldl addChange m es) k \<noteq> None"
  by (induction es arbitrary: m) (simp_all add: Map_get_addChange)

lemma addChanges_concat: "addChanges m txs = foldl addChange m (concat (map entries txs))"
  by (induction txs arbitrary: m) (simp_all add: addChanges_def)

lemma or0_addChanges: "or0 (Map_get (addChanges m txs) k) = or0 (Map_get m k) + movement txs k"
  by (simp add: addChanges_concat or0_foldl_addChange movement_def)

lemma present_addChanges: "Map_get m k \<noteq> None \<Longrightarrow> Map_get (addChanges m txs) k \<noteq> None"
  by (simp add: addChanges_concat present_foldl_addChange)

lemma Some_or0: "x \<noteq> None \<Longrightarrow> x = Some (or0 x)"
  by (cases x) simp_all

lemma Map_get_foldl_set:
  "Map_get (foldl (\<lambda>m a. Map_set m (code a) (g (code a))) m0 accounts) k =
     (if k \<in> code ` set accounts then Some (g k) else Map_get m0 k)"
  by (induction accounts arbitrary: m0) (auto simp: Map_get_set)

lemma Map_new_zero:
  "Map_get (Map_new (map (\<lambda>a. (code a, 0)) accounts)) k =
     (if k \<in> code ` set accounts then Some 0 else None)"
proof -
  have "Map_new (map (\<lambda>a. (code a, 0)) accounts) =
          foldl (\<lambda>m a. Map_set m (code a) ((\<lambda>_. 0) (code a))) [] accounts"
    by (simp add: Map_new_def foldl_map)
  then show ?thesis
    using Map_get_foldl_set[where g = "\<lambda>_. 0" and ?m0.0 = "[]" and accounts = accounts and k = k]
    by (simp add: Map_get_empty)
qed

lemma seeded_addChanges:
  assumes "k \<in> code ` set accounts"
  shows "Map_get (addChanges (Map_new (map (\<lambda>a. (code a, 0)) accounts)) txs) k = Some (movement txs k)"
proof -
  let ?m = "Map_new (map (\<lambda>a. (code a, 0)) accounts)"
  from assms have g: "Map_get ?m k = Some 0" by (simp add: Map_new_zero)
  then have "Map_get (addChanges ?m txs) k \<noteq> None"
    by (intro present_addChanges) simp
  from Some_or0[OF this] g show ?thesis
    by (simp add: or0_addChanges)
qed

lemma periodChanges_get:
  "k \<in> code ` set accounts \<Longrightarrow>
   Map_get (periodChanges accounts txs p) k = Some (movement (filter (inPeriod p) txs) k)"
  unfolding periodChanges_def inPeriod_def by (rule seeded_addChanges)

lemma openingBalances_get:
  "k \<in> code ` set accounts \<Longrightarrow>
   Map_get (openingBalances accounts txs p) k = Some (movement (filter (beforePeriod p) txs) k)"
  unfolding openingBalances_def beforePeriod_def by (rule seeded_addChanges)

lemma closingBalances_get:
  "Map_get (closingBalances accounts txs p) k =
     (if k \<in> code ` set accounts
      then Some (or0 (Map_get (openingBalances accounts txs p) k) + or0 (Map_get (periodChanges accounts txs p) k))
      else None)"
  unfolding closingBalances_def Let_def
  using Map_get_foldl_set[where g = "\<lambda>c. or0 (Map_get (openingBalances accounts txs p) c) + or0 (Map_get (periodChanges accounts txs p) c)"
      and ?m0.0 = "[]" and accounts = accounts and k = k]
  by (simp add: Map_get_empty)



text \<open>
  Claim C7. For every account of \<open>accounts\<close> and every period, the three maps hold a value
  under its code, and the closing balance is the opening balance plus the period change.
\<close>

theorem closing_is_opening_plus_change:
  assumes "a \<in> set accounts"
  shows "\<exists>opening change.
           Map_get (openingBalances accounts transactions period) (code a) = Some opening
         \<and> Map_get (periodChanges accounts transactions period) (code a) = Some change
         \<and> Map_get (closingBalances accounts transactions period) (code a) = Some (opening + change)"
  using assms by (simp add: periodChanges_get openingBalances_get closingBalances_get)

subsection \<open>Updates of the account balances\<close>

lemma keys_Map_set: "fst ` set (Map_set m k v) = insert k (fst ` set m)"
  by (simp add: Map_set_def dom_update)

lemma distinct_Map_set: "distinct (map fst m) \<Longrightarrow> distinct (map fst (Map_set m k v))"
  by (simp add: Map_set_def distinct_update)

lemma Map_get_None_iff: "Map_get m k = None \<longleftrightarrow> k \<notin> fst ` set m"
  by (simp add: Map_get_def map_of_eq_None_iff)

lemma lookupAccount_None: "lookupAccount accounts c = None \<longleftrightarrow> c \<notin> code ` set accounts"
  by (auto simp: lookupAccount_def find_None_iff)


lemma addUpdate_alt:
  "addUpdate accounts m e =
     (case lookupAccount accounts (account_code e) of
        None \<Rightarrow> m
      | Some a \<Rightarrow> Map_set m (account_code e) (or0 (Map_get m (account_code e)) + entryChange a e))"
  by (simp add: addUpdate_def lookupAccount_def Let_def)

lemma removeUpdate_alt:
  "removeUpdate accounts m e =
     (case lookupAccount accounts (account_code e) of
        None \<Rightarrow> m
      | Some a \<Rightarrow> Map_set m (account_code e) (or0 (Map_get m (account_code e)) - entryChange a e))"
  by (simp add: removeUpdate_def lookupAccount_def Let_def)

lemma keys_addUpdate:
  "fst ` set (addUpdate accounts m e) =
     fst ` set m \<union> (if account_code e \<in> code ` set accounts then {account_code e} else {})"
proof (cases "lookupAccount accounts (account_code e)")
  case None
  then have "account_code e \<notin> code ` set accounts"
    using lookupAccount_None[of accounts "account_code e"] by simp
  with None show ?thesis by (simp add: addUpdate_alt)
next
  case (Some a)
  then have "account_code e \<in> code ` set accounts"
    using lookupAccount_None[of accounts "account_code e"] by simp
  with Some show ?thesis by (simp add: addUpdate_alt keys_Map_set)
qed

lemma keys_addUpdates:
  "fst ` set (foldl (addUpdate accounts) m es) =
     fst ` set m \<union> {c \<in> account_code ` set es. c \<in> code ` set accounts}"
proof (induction es arbitrary: m)
  case Nil
  then show ?case by simp
next
  case (Cons e es)
  have "fst ` set (foldl (addUpdate accounts) m (e # es)) =
          fst ` set (addUpdate accounts m e) \<union> {c \<in> account_code ` set es. c \<in> code ` set accounts}"
    by (simp only: foldl_Cons Cons.IH)
  then show ?case by (simp add: keys_addUpdate) blast
qed

lemma distinct_addUpdate:
  "distinct (map fst m) \<Longrightarrow> distinct (map fst (addUpdate accounts m e))"
  by (simp add: addUpdate_alt distinct_Map_set split: option.splits)

lemma distinct_addUpdates:
  "distinct (map fst m) \<Longrightarrow> distinct (map fst (foldl (addUpdate accounts) m es))"
proof (induction es arbitrary: m)
  case Nil
  then show ?case by simp
next
  case (Cons e es)
  from Cons.IH[OF distinct_addUpdate[OF Cons.prems]] show ?case by (simp only: foldl_Cons)
qed







lemma applyUpdates_distinct:
  "distinct (map fst ups) \<Longrightarrow>
   applyUpdates ups tbl = map (\<lambda>a. a\<lparr>balance := balance a + or0 (Map_get ups (code a))\<rparr>) tbl"
proof (induction ups arbitrary: tbl)
  case Nil
  then show ?case by (simp add: applyUpdates_def Map_get_empty)
next
  case (Cons u ups)
  obtain c d where u: "u = (c, d)" by (cases u)
  from Cons.prems u have nc: "Map_get ups c = None" and dist: "distinct (map fst ups)"
    by (simp_all add: Map_get_None_iff)
  have "applyUpdates (u # ups) tbl = applyUpdates ups (update_account_balance c d tbl)"
    by (simp add: applyUpdates_def u)
  also have "\<dots> = map (\<lambda>a. a\<lparr>balance := balance a + or0 (Map_get ups (code a))\<rparr>)
                     (update_account_balance c d tbl)"
    by (rule Cons.IH[OF dist])
  also have "\<dots> = map (\<lambda>a. a\<lparr>balance := balance a + or0 (Map_get (u # ups) (code a))\<rparr>) tbl"
    using nc by (auto simp: update_account_balance_def u Map_get_def)
  finally show ?case .
qed

lemma Map_get_negated: "or0 (Map_get (negated m) k) = - or0 (Map_get m k)"
  by (induction m) (auto simp: negated_def Map_get_def)

lemma Map_set_negated: "Map_set (negated m) k (- v) = negated (Map_set m k v)"
  by (induction m) (auto simp: negated_def Map_set_def)

lemma removeUpdate_negated: "removeUpdate accounts (negated m) e = negated (addUpdate accounts m e)"
proof (cases "lookupAccount accounts (account_code e)")
  case None
  then show ?thesis by (simp add: addUpdate_alt removeUpdate_alt)
next
  case (Some a)
  have "- or0 (Map_get m (account_code e)) - entryChange a e
          = - (or0 (Map_get m (account_code e)) + entryChange a e)" by simp
  with Some show ?thesis
    by (simp only: addUpdate_alt removeUpdate_alt option.case Map_get_negated Map_set_negated)
qed

lemma foldl_removeUpdate_negated:
  "foldl (removeUpdate accounts) (negated m) es = negated (foldl (addUpdate accounts) m es)"
proof (induction es arbitrary: m)
  case Nil
  then show ?case by simp
next
  case (Cons e es)
  show ?case by (simp only: foldl_Cons removeUpdate_negated Cons.IH)
qed

lemma deletionUpdates_negated: "deletionUpdates accounts es = negated (creationUpdates accounts es)"
  using foldl_removeUpdate_negated[of accounts "[]" es]
  by (simp add: deletionUpdates_def creationUpdates_def negated_def)

lemma keys_negated: "map fst (negated m) = map fst m"
  by (induction m) (auto simp: negated_def)

lemma restore_table:
  assumes "distinct (map fst ups)"
  shows "applyUpdates (negated ups) (applyUpdates ups tbl) = tbl"
proof -
  have d: "distinct (map fst (negated ups))" using assms by (simp add: keys_negated)
  show ?thesis
    by (simp add: applyUpdates_distinct[OF d] applyUpdates_distinct[OF assms] Map_get_negated o_def)
qed

lemma distinct_creationUpdates: "distinct (map fst (creationUpdates accounts es))"
  by (simp add: creationUpdates_def distinct_addUpdates)

lemma addTransaction_stored:
  "addTransaction accounts t es (Stored i) db =
     (Inr (storedTransaction t i es),
      db\<lparr>transactions_table := transactions_table db @ [storedTransaction t i es],
         accounts_table := applyUpdates (creationUpdates accounts es) (accounts_table db)\<rparr>)"
  by (simp add: addTransaction_def addTransactionsBatch_def addOne_def Let_def storedTransaction_def)

lemma removeUpdate_transaction_id:
  "removeUpdate accounts m (e\<lparr>transaction_id := x\<rparr>) = removeUpdate accounts m e"
  by (simp add: removeUpdate_def entryChange_def split: option.splits)

lemma deletionUpdates_transaction_id:
  "deletionUpdates accounts (map (\<lambda>e. e\<lparr>transaction_id := x\<rparr>) es) = deletionUpdates accounts es"
  by (simp add: deletionUpdates_def foldl_map removeUpdate_transaction_id)

lemma deleteTransaction_found:
  "find (\<lambda>t. tx_id t = Some i) transactions = Some tx \<Longrightarrow>
   accounts_table (snd (deleteTransaction accounts transactions i ok db)) =
     applyUpdates (deletionUpdates accounts (entries tx)) (accounts_table db)"
  by (simp add: deleteTransaction_def Let_def)

lemma delete_after_create:
  "accounts_table (snd (deleteTransaction accounts (storedTransaction t i es # transactions) i ok
       (snd (addTransaction accounts t es (Stored i) db)))) = accounts_table db"
proof -
  have f: "find (\<lambda>tx. tx_id tx = Some i) (storedTransaction t i es # transactions)
             = Some (storedTransaction t i es)"
    by (simp add: storedTransaction_def)
  have e: "entries (storedTransaction t i es) = map (\<lambda>e. e\<lparr>transaction_id := Some i\<rparr>) es"
    by (simp add: storedTransaction_def)
  show ?thesis
    unfolding deleteTransaction_found[OF f] e deletionUpdates_transaction_id addTransaction_stored
    by (simp add: deletionUpdates_negated restore_table[OF distinct_creationUpdates])
qed

lemma unknown_code_has_no_update:
  "c \<notin> code ` set accounts \<Longrightarrow> Map_get (creationUpdates accounts es) c = None"
  by (simp add: Map_get_None_iff creationUpdates_def keys_addUpdates)

text \<open>
  Claim C5. The updates computed on deletion are the negated updates computed on creation,
  for the same entries and accounts, and applying the creation updates and then the deletion
  updates gives back the table of accounts, so every balance has its value of before. So it
  is for the operations: after \<open>addTransaction\<close> has stored a transaction, \<open>deleteTransaction\<close>
  of it, with the same accounts in the component state, restores the table of accounts.
\<close>

theorem create_then_delete_restores_balances:
  "deletionUpdates accounts es = map (\<lambda>(c, d). (c, - d)) (creationUpdates accounts es)
   \<and> applyUpdates (deletionUpdates accounts es) (applyUpdates (creationUpdates accounts es) tbl) = tbl
   \<and> fst (addTransaction accounts t es (Stored i) db) = Inr (storedTransaction t i es)
   \<and> accounts_table (snd (deleteTransaction accounts (storedTransaction t i es # transactions) i ok
        (snd (addTransaction accounts t es (Stored i) db)))) = accounts_table db"
  using deletionUpdates_negated[of accounts es]
    restore_table[OF distinct_creationUpdates, of accounts es tbl]
    delete_after_create[of accounts t i es transactions ok db]
  by (simp add: negated_def addTransaction_stored)


subsection \<open>Totals of the report\<close>

lemma foldl_plus: "foldl (\<lambda>s a. s + f a) (z::number) xs = z + sum_list (map f xs)"
  by (induction xs arbitrary: z) simp_all

lemma sumBalance_sum: "sumBalance xs = sum_list (map balance xs)"
  by (simp add: sumBalance_def foldl_plus)

lemma netIncome_sum:
  "netIncome (calculatePeriodFinancials accounts txs p) =
     sum_list (map (\<lambda>a. - changeOf accounts txs p (code a)) (ofType Pendapatan accounts))
   - sum_list (map (\<lambda>a. changeOf accounts txs p (code a)) (ofType Beban accounts))"
  by (simp add: calculatePeriodFinancials_def Let_def sumBalance_sum o_def changeOf_def ofType_def)

lemma totalAssets_sum:
  "totalAssets (calculatePeriodFinancials accounts txs p) =
     sum_list (map (\<lambda>a. if isAccumulated a then - closingOf accounts txs p (code a)
                         else closingOf accounts txs p (code a)) (ofType Aset accounts))"
  by (simp add: calculatePeriodFinancials_def Let_def foldl_plus o_def closingOf_def ofType_def
        isAccumulated_def cong: if_cong)

lemma totalLiabilities_sum:
  "totalLiabilities (calculatePeriodFinancials accounts txs p) =
     sum_list (map (\<lambda>a. - closingOf accounts txs p (code a)) (ofType Liabilitas accounts))"
  by (simp add: calculatePeriodFinancials_def Let_def sumBalance_sum o_def closingOf_def ofType_def)

lemma totalEquityWithPL_sum:
  "totalEquityWithPL (calculatePeriodFinancials accounts txs p) =
     sum_list (map (\<lambda>a. - closingOf accounts txs p (code a)
                         + (if code a = ''3200'' then netIncome (calculatePeriodFinancials accounts txs p) else 0))
               (ofType Modal accounts))"
proof -
  have "totalEquityWithPL (calculatePeriodFinancials accounts txs p) =
     sum_list (map (\<lambda>a. if code a = ''3200''
                         then - closingOf accounts txs p (code a) + netIncome (calculatePeriodFinancials accounts txs p)
                         else - closingOf accounts txs p (code a))
               (ofType Modal accounts))"
    by (simp add: calculatePeriodFinancials_def Let_def sumBalance_sum o_def closingOf_def ofType_def
          if_distrib[of balance] cong: if_cong)
  also have "\<dots> = sum_list (map (\<lambda>a. - closingOf accounts txs p (code a)
                         + (if code a = ''3200'' then netIncome (calculatePeriodFinancials accounts txs p) else 0))
               (ofType Modal accounts))"
    by (intro arg_cong[where f = sum_list] map_cong) simp_all
  finally show ?thesis .
qed

lemma totalLiabilitiesAndEquity_sum:
  "totalLiabilitiesAndEquity (calculatePeriodFinancials accounts txs p) =
     totalLiabilities (calculatePeriodFinancials accounts txs p)
   + totalEquityWithPL (calculatePeriodFinancials accounts txs p)"
  by (simp add: calculatePeriodFinancials_def Let_def)

lemma isBalanced_iff:
  "isBalanced (calculatePeriodFinancials accounts txs p) \<longleftrightarrow>
     \<bar>totalAssets (calculatePeriodFinancials accounts txs p)
      - totalLiabilitiesAndEquity (calculatePeriodFinancials accounts txs p)\<bar> < 0.01"
  by (simp add: calculatePeriodFinancials_def Let_def)

subsection \<open>The accounting identity\<close>








lemma openingOf_known:
  "k \<in> code ` set accounts \<Longrightarrow> openingOf accounts txs p k = movement (filter (beforePeriod p) txs) k"
  by (simp add: openingOf_def openingBalances_get)







subsection \<open>The report in the arithmetic of doubles\<close>

lemma isWhole_Ints: "isWhole x \<longleftrightarrow> x \<in> \<int>"
  unfolding isWhole_def by (metis Ints_of_int floor_of_int Ints_cases)

lemma isWhole_0 [simp]: "isWhole 0"
  by (simp add: isWhole_def)

lemma isWhole_add: "isWhole x \<Longrightarrow> isWhole y \<Longrightarrow> isWhole (x + y)"
  by (simp add: isWhole_Ints)

lemma isWhole_diff: "isWhole x \<Longrightarrow> isWhole y \<Longrightarrow> isWhole (x - y)"
  by (simp add: isWhole_Ints)


lemma isWhole_sum_list: "(\<forall>x \<in> set xs. isWhole (f x)) \<Longrightarrow> isWhole (sum_list (map f xs))"
  by (induction xs) (simp_all add: isWhole_add)

lemma exactOnWhole_apply: "exactOnWhole fl \<Longrightarrow> isWhole x \<Longrightarrow> \<bar>x\<bar> \<le> 2 ^ 53 \<Longrightarrow> fl x = x"
  by (simp add: exactOnWhole_def)





lemma absSum_nonneg: "0 \<le> absSum txs"
  unfolding absSum_def by (rule sum_list_nonneg) (auto simp: absChange_def)






lemma wholeLedger_iff: "wholeLedger txs \<longleftrightarrow> (\<forall>tx \<in> set txs. \<forall>e \<in> set (entries tx). wholeEntry e)"
  by (simp add: wholeLedger_def list_all_iff)

lemma weight_nonneg: "0 \<le> weight txs c"
  unfolding weight_def by (rule sum_list_nonneg) (auto simp: absChange_def)

lemma abs_sum_list_le:
  fixes g w :: "'a \<Rightarrow> number"
  shows "\<forall>x \<in> set xs. \<bar>g x\<bar> \<le> w x \<Longrightarrow> \<bar>sum_list (map g xs)\<bar> \<le> sum_list (map w xs)"
proof (induction xs)
  case Nil
  then show ?case by simp
next
  case (Cons x xs)
  then have "\<bar>g x\<bar> \<le> w x" "\<bar>sum_list (map g xs)\<bar> \<le> sum_list (map w xs)" by simp_all
  then show ?case by simp
qed

lemma movement_whole: "wholeLedger txs \<Longrightarrow> isWhole (movement txs c)"
  unfolding movement_def
  by (rule isWhole_sum_list) (auto simp: wholeLedger_iff wholeEntry_def intro: isWhole_diff)

lemma movement_le_weight: "\<bar>movement txs c\<bar> \<le> weight txs c"
  unfolding movement_def weight_def
  by (rule abs_sum_list_le) (auto simp: absChange_def abs_triangle_ineq4)

lemma wholeLedger_filter: "wholeLedger txs \<Longrightarrow> wholeLedger (filter P txs)"
  by (auto simp: wholeLedger_iff)

lemma weight_Cons: "weight (tx # txs) c = weight [tx] c + weight txs c"
  by (simp add: weight_def)

lemma weight_disjoint:
  "\<forall>tx. \<not> (P tx \<and> Q tx) \<Longrightarrow> weight (filter P txs) c + weight (filter Q txs) c \<le> weight txs c"
proof (induction txs)
  case Nil
  then show ?case by (simp add: weight_def)
next
  case (Cons tx txs)
  then have ih: "weight (filter P txs) c + weight (filter Q txs) c \<le> weight txs c" by simp
  have nn: "0 \<le> weight [tx] c" by (rule weight_nonneg)
  from Cons.prems have "\<not> (P tx \<and> Q tx)" by simp
  then consider "P tx" "\<not> Q tx" | "\<not> P tx" "Q tx" | "\<not> P tx" "\<not> Q tx" by blast
  then show ?case
  proof cases
    case 1
    then show ?thesis using ih weight_Cons[of tx txs c] weight_Cons[of tx "filter P txs" c] by simp
  next
    case 2
    then show ?thesis using ih weight_Cons[of tx txs c] weight_Cons[of tx "filter Q txs" c] by simp
  next
    case 3
    then show ?thesis using ih nn weight_Cons[of tx txs c] by simp
  qed
qed

lemma weight_filter: "weight (filter P txs) c \<le> weight txs c"
  using weight_disjoint[of P "\<lambda>_. False" txs c] by (simp add: weight_def)



lemma openingOf_bounds:
  assumes "wholeLedger txs" "k \<in> code ` set accounts"
  shows "isWhole (openingOf accounts txs p k)" "\<bar>openingOf accounts txs p k\<bar> \<le> weight txs k"
proof -
  show "isWhole (openingOf accounts txs p k)"
    by (simp add: openingOf_known[OF assms(2)] movement_whole wholeLedger_filter[OF assms(1)])
  show "\<bar>openingOf accounts txs p k\<bar> \<le> weight txs k"
    unfolding openingOf_known[OF assms(2)]
    using movement_le_weight[of "filter (beforePeriod p) txs" k] weight_filter[of "beforePeriod p" txs k]
    by linarith
qed




lemma fold_fl_exact:
  fixes g w :: "'a \<Rightarrow> number"
  assumes "exactOnWhole fl"
  shows "isWhole z \<Longrightarrow> \<forall>x \<in> set xs. isWhole (g x) \<and> \<bar>g x\<bar> \<le> w x
    \<Longrightarrow> \<bar>z\<bar> + sum_list (map w xs) \<le> 2 ^ 53
    \<Longrightarrow> foldl (\<lambda>s x. fl (s + g x)) z xs = z + sum_list (map g xs)"
proof (induction xs arbitrary: z)
  case Nil
  then show ?case by simp
next
  case (Cons x xs)
  have nn: "0 \<le> sum_list (map w xs)"
    using Cons.prems(2) by (intro sum_list_nonneg) force
  have gx: "isWhole (g x)" "\<bar>g x\<bar> \<le> w x" using Cons.prems(2) by simp_all
  have w: "isWhole (z + g x)" using Cons.prems(1) gx(1) by (rule isWhole_add)
  have b: "\<bar>z + g x\<bar> \<le> \<bar>z\<bar> + w x" using gx(2) by linarith
  have 1: "fl (z + g x) = z + g x"
    using b nn Cons.prems(3) by (intro exactOnWhole_apply[OF assms w]) simp
  have "foldl (\<lambda>s x. fl (s + g x)) (z + g x) xs = (z + g x) + sum_list (map g xs)"
    using Cons.prems(2,3) b by (intro Cons.IH[OF w]) auto
  then show ?case by (simp add: 1)
qed


























subsection \<open>Entries on unknown accounts\<close>

lemma filter_known_code:
  "k \<in> code ` set accounts \<Longrightarrow>
   filter (\<lambda>e. account_code e = k) (filter (\<lambda>e. account_code e \<in> code ` set accounts) es) =
   filter (\<lambda>e. account_code e = k) es" for es :: "JournalEntry list"
  by (induction es) auto

lemma movement_knownEntries:
  assumes "k \<in> code ` set accounts"
  shows "movement (map (knownEntries accounts) txs) k = movement txs k"
proof -
  have "filter (\<lambda>e. account_code e = k) (concat (map entries (map (knownEntries accounts) txs))) =
        filter (\<lambda>e. account_code e = k) (concat (map entries txs))"
    by (induction txs) (simp_all add: knownEntries_def filter_known_code[OF assms] del: filter_filter)
  then show ?thesis by (simp only: movement_def)
qed

lemma inPeriod_knownEntries: "inPeriod p (knownEntries accounts tx) = inPeriod p tx"
  by (simp add: inPeriod_def knownEntries_def)

lemma beforePeriod_knownEntries: "beforePeriod p (knownEntries accounts tx) = beforePeriod p tx"
  by (simp add: beforePeriod_def knownEntries_def)

lemma filter_dropUnknown:
  "filter (inPeriod p) (dropUnknown accounts txs) = dropUnknown accounts (filter (inPeriod p) txs)"
  "filter (beforePeriod p) (dropUnknown accounts txs) = dropUnknown accounts (filter (beforePeriod p) txs)"
  by (simp_all add: dropUnknown_def filter_map o_def inPeriod_knownEntries beforePeriod_knownEntries)

lemma periodChanges_dropUnknown:
  "a \<in> set accounts \<Longrightarrow>
   Map_get (periodChanges accounts (dropUnknown accounts txs) p) (code a) =
   Map_get (periodChanges accounts txs p) (code a)"
  by (simp add: periodChanges_get filter_dropUnknown) (simp add: dropUnknown_def movement_knownEntries)

lemma openingBalances_dropUnknown:
  "a \<in> set accounts \<Longrightarrow>
   Map_get (openingBalances accounts (dropUnknown accounts txs) p) (code a) =
   Map_get (openingBalances accounts txs p) (code a)"
  by (simp add: openingBalances_get filter_dropUnknown) (simp add: dropUnknown_def movement_knownEntries)

lemma closingBalances_dropUnknown:
  "closingBalances accounts (dropUnknown accounts txs) p = closingBalances accounts txs p"
  unfolding closingBalances_def Let_def
  by (rule foldl_cong) (simp_all add: periodChanges_dropUnknown openingBalances_dropUnknown)

lemma report_dropUnknown:
  "calculatePeriodFinancials accounts (dropUnknown accounts txs) p = calculatePeriodFinancials accounts txs p"
proof -
  have pc: "map (\<lambda>a. a\<lparr>balance := f (or0 (Map_get (periodChanges accounts (dropUnknown accounts txs) p) (code a)))\<rparr>)
              (filter P accounts) =
            map (\<lambda>a. a\<lparr>balance := f (or0 (Map_get (periodChanges accounts txs p) (code a)))\<rparr>)
              (filter P accounts)" for f P
    by (rule map_cong) (simp_all add: periodChanges_dropUnknown)
  have ob: "foldl (\<lambda>s c. s + or0 (Map_get (openingBalances accounts (dropUnknown accounts txs) p) c)) 0
              (map code (filter P accounts)) =
            foldl (\<lambda>s c. s + or0 (Map_get (openingBalances accounts txs p) c)) 0
              (map code (filter P accounts))" for P
    unfolding foldl_map
    by (rule foldl_cong) (simp_all add: openingBalances_dropUnknown)
  show ?thesis
    unfolding calculatePeriodFinancials_def Let_def closingBalances_dropUnknown
      pc[of "\<lambda>x. x"] pc[of uminus] ob
    by (rule refl)
qed

lemma keys_set_negated: "fst ` set (negated m) = fst ` set m"
  by (induction m) (auto simp: negated_def)

lemma addUpdate_unknown:
  "account_code e \<notin> code ` set accounts \<Longrightarrow> addUpdate accounts m e = m"
  using lookupAccount_None[of accounts "account_code e"] by (simp add: addUpdate_alt)

lemma creationUpdates_known_only:
  "foldl (addUpdate accounts) m (filter (\<lambda>e. account_code e \<in> code ` set accounts) es) =
   foldl (addUpdate accounts) m es"
proof (induction es arbitrary: m)
  case Nil
  then show ?case by simp
next
  case (Cons e es)
  show ?case
  proof (cases "account_code e \<in> code ` set accounts")
    case True
    then show ?thesis by (simp only: filter.simps if_True foldl_Cons Cons.IH)
  next
    case False
    then show ?thesis by (simp only: filter.simps if_False foldl_Cons Cons.IH addUpdate_unknown[OF False])
  qed
qed

text \<open>
  Claim C10. Entries whose account code belongs to no account of the list change nothing:
  the report is the report of the transactions without these entries, the updates computed
  on creation and on deletion are those of the other entries, and no update is made for a
  code outside the list.
\<close>

theorem unknown_accounts_are_skipped:
  "calculatePeriodFinancials accounts (dropUnknown accounts transactions) period =
     calculatePeriodFinancials accounts transactions period
   \<and> creationUpdates accounts (filter (\<lambda>e. account_code e \<in> code ` set accounts) es) =
       creationUpdates accounts es
   \<and> deletionUpdates accounts (filter (\<lambda>e. account_code e \<in> code ` set accounts) es) =
       deletionUpdates accounts es
   \<and> (\<forall>c. c \<notin> code ` set accounts \<longrightarrow>
         Map_get (creationUpdates accounts es) c = None \<and> Map_get (deletionUpdates accounts es) c = None)"
proof (intro conjI allI impI)
  show "calculatePeriodFinancials accounts (dropUnknown accounts transactions) period =
     calculatePeriodFinancials accounts transactions period"
    by (rule report_dropUnknown)
  show c: "creationUpdates accounts (filter (\<lambda>e. account_code e \<in> code ` set accounts) es) =
       creationUpdates accounts es"
    by (simp add: creationUpdates_def creationUpdates_known_only)
  show "deletionUpdates accounts (filter (\<lambda>e. account_code e \<in> code ` set accounts) es) =
       deletionUpdates accounts es"
    by (simp only: deletionUpdates_negated c)
  fix c assume "c \<notin> code ` set accounts"
  then have k: "c \<notin> fst ` set (creationUpdates accounts es)"
    by (simp add: creationUpdates_def keys_addUpdates)
  then show "Map_get (creationUpdates accounts es) c = None"
    by (simp add: Map_get_None_iff)
  from k have "c \<notin> fst ` set (deletionUpdates accounts es)"
    by (simp add: deletionUpdates_negated keys_set_negated)
  then show "Map_get (deletionUpdates accounts es) c = None"
    by (simp add: Map_get_None_iff)
qed

subsection \<open>Whole numbers are doubles\<close>









text \<open>
  The rounding at work: \<open>0.01\<close> is not \<open>1/100\<close>, the sum of \<open>0.1\<close> and \<open>0.2\<close> is not \<open>0.3\<close>, and
  \<open>2^53 + 1\<close> is no double.
\<close>

lemma roundDouble_examples:
  "roundDouble (1 / 100) = 5764607523034235 / 2 ^ 59
   \<and> roundDouble (roundDouble (1 / 10) + roundDouble (2 / 10)) \<noteq> roundDouble (3 / 10)
   \<and> roundDouble (2 ^ 53 + 1) = 2 ^ 53
   \<and> roundDouble (2 ^ 53 + 3) = 2 ^ 53 + 4"
  by code_simp

subsection \<open>Evaluations of the accounting identity\<close>



text \<open>
  Each of the other hypotheses is needed, on the default chart: income booked before the
  period stays out of the net income, an entry on an unknown account stays out of every
  total, and amounts beyond \<open>2^53\<close> lose units when they are added up.
\<close>

lemma earlier_income_unbalances_report:
  "txBalanced (mkTransaction ''2023-06-01'' ''Pendapatan 2023''
       [mkEntry ''1200'' 1000 0, mkEntry ''4100'' 0 1000])
   \<and> \<not> isBalanced (calculatePeriodFinancials_fl roundDouble toLowerCase defaultAccounts
        [mkTransaction ''2023-06-01'' ''Pendapatan 2023''
           [mkEntry ''1200'' 1000 0, mkEntry ''4100'' 0 1000]] year2024)"
  by code_simp

lemma unknown_account_unbalances_report:
  "txBalanced txStray
   \<and> \<not> isBalanced (calculatePeriodFinancials_fl roundDouble toLowerCase defaultAccounts [txStray] year2024)"
  by code_simp

lemma large_amounts_unbalance_report:
  "txBalanced txLarge
   \<and> wholeLedger [txLarge]
   \<and> totalAssets (calculatePeriodFinancials_fl roundDouble toLowerCase defaultAccounts [txLarge] year2024)
       = 2 ^ 53
   \<and> totalLiabilitiesAndEquity
        (calculatePeriodFinancials_fl roundDouble toLowerCase defaultAccounts [txLarge] year2024)
       = 2 ^ 53 + 2
   \<and> \<not> isBalanced (calculatePeriodFinancials_fl roundDouble toLowerCase defaultAccounts [txLarge] year2024)"
  by code_simp

subsection \<open>Contra-asset accounts\<close>

text \<open>
  The first two parts of claim C2 hold for every input: the assets are the asset accounts
  with their closing balance, and the total takes the balance of an account with
  \<open>akumulasi\<close> in its name negated.
\<close>

lemma assets_show_closing_balance:
  "assets (calculatePeriodFinancials accounts txs p) =
     map (\<lambda>a. a\<lparr>balance := closingOf accounts txs p (code a)\<rparr>) (ofType Aset accounts)"
  by (simp add: calculatePeriodFinancials_def Let_def closingOf_def ofType_def)

lemma totalAssets_of_assets:
  "totalAssets (calculatePeriodFinancials accounts txs p) =
     sum_list (map (\<lambda>a. if isAccumulated a then - balance a else balance a)
       (assets (calculatePeriodFinancials accounts txs p)))"
  by (simp add: calculatePeriodFinancials_def Let_def foldl_plus isAccumulated_def)

text \<open>
  Claim C2 at the contra-asset scenario: a depreciation of 100,000 debits the expense account
  \<open>5401\<close> and credits the accumulated depreciation account \<open>1601\<close>, whose name contains
  \<open>akumulasi\<close>. The account is shown with its closing balance of \<open>-100,000\<close>, the total takes
  it negated, and the total assets are 100,000 higher than without the transaction, not
  lower; the report is no longer balanced.
\<close>

theorem contra_asset_raises_total_assets:
  "totalAssets (calculatePeriodFinancials contraChart [] year2024) = 0
   \<and> map balance (assets (calculatePeriodFinancials contraChart [txDepreciation] year2024)) = [0, - 100000]
   \<and> totalAssets (calculatePeriodFinancials contraChart [txDepreciation] year2024) = 100000
   \<and> totalLiabilitiesAndEquity (calculatePeriodFinancials contraChart [txDepreciation] year2024) = - 100000
   \<and> \<not> isBalanced (calculatePeriodFinancials contraChart [txDepreciation] year2024)"
  by code_simp

text \<open>
  With the default chart, whose accounts \<open>1601\<close> and \<open>1611\<close> are named \<open>Akum. Penyusutan\<close>,
  the same transaction lowers the total assets by 100,000.
\<close>

lemma default_chart_depreciation_lowers_total_assets:
  "totalAssets (calculatePeriodFinancials defaultAccounts [] year2024) = 0
   \<and> totalAssets (calculatePeriodFinancials defaultAccounts [txDepreciation] year2024) = - 100000"
  by code_simp

text \<open>
  Claim C3 at an accumulated amortisation account: it is an asset account with \<open>akumulasi\<close>
  in its name, so the report negates its balance in the total assets, and it is not a
  contra-asset for the balance updates, which look for \<open>akumulasi penyusutan\<close> and treat it
  as debit-normal.
\<close>

theorem contra_classifications_differ:
  "atype amortisationAccount = Aset
   \<and> str_includes (toLowerCase (name amortisationAccount)) ''akumulasi''
   \<and> \<not> isContraAsset amortisationAccount
   \<and> creationUpdates amortisationChart (entries txAmortisation) = [(''5402'', 100000), (''1701'', - 100000)]
   \<and> map balance (assets (calculatePeriodFinancials amortisationChart [txAmortisation] year2024)) = [- 100000]
   \<and> totalAssets (calculatePeriodFinancials amortisationChart [txAmortisation] year2024) = 100000"
  by code_simp

text \<open>One direction holds: a contra-asset of the balance updates is negated in the report.\<close>

lemma startsWith_append: "startsWith s (u @ v) \<Longrightarrow> startsWith s u"
  by (induction s u rule: startsWith.induct) simp_all

lemma str_includes_append: "str_includes s (u @ v) \<Longrightarrow> str_includes s u"
proof (induction s)
  case Nil
  then show ?case by simp
next
  case (Cons x xs)
  then show ?case by (auto dest: startsWith_append)
qed

lemma isContraAsset_isAccumulated: "isContraAsset a \<Longrightarrow> atype a = Aset \<and> isAccumulated a"
  using str_includes_append[of "toLowerCase (name a)" "''akumulasi''" "'' penyusutan''"]
  by (simp add: isContraAsset_def isAccumulated_def)

subsection \<open>Evaluations of the balance updates\<close>


text \<open>Witness of claim C5, on the same entries.\<close>

theorem create_then_delete_witness:
  "creationUpdates scenarioAccounts nettingEntries = [(''1200'', 750000), (''4100'', 1000000)]
   \<and> deletionUpdates scenarioAccounts nettingEntries = [(''1200'', - 750000), (''4100'', - 1000000)]
   \<and> applyUpdates (deletionUpdates scenarioAccounts nettingEntries)
        (applyUpdates (creationUpdates scenarioAccounts nettingEntries) scenarioAccounts) = scenarioAccounts
   \<and> map balance (accounts_table (snd (addTransaction scenarioAccounts txRevenue nettingEntries
        (Stored ''t1'') scenarioDb))) = [750000, 1000000]
   \<and> accounts_table (snd (deleteTransaction scenarioAccounts
        [storedTransaction txRevenue ''t1'' nettingEntries] ''t1'' True
        (snd (addTransaction scenarioAccounts txRevenue nettingEntries (Stored ''t1'') scenarioDb))))
       = accounts_table scenarioDb"
proof -
  have c: "creationUpdates scenarioAccounts nettingEntries = [(''1200'', 750000), (''4100'', 1000000)]"
    by code_simp
  have d: "deletionUpdates scenarioAccounts nettingEntries = [(''1200'', - 750000), (''4100'', - 1000000)]"
    by code_simp
  have a: "map balance (accounts_table (snd (addTransaction scenarioAccounts txRevenue nettingEntries
        (Stored ''t1'') scenarioDb))) = [750000, 1000000]"
    by code_simp
  note inst = create_then_delete_restores_balances
    [of scenarioAccounts nettingEntries scenarioAccounts txRevenue "''t1''" scenarioDb "[]" True]
  from inst
  have r: "applyUpdates (deletionUpdates scenarioAccounts nettingEntries)
        (applyUpdates (creationUpdates scenarioAccounts nettingEntries) scenarioAccounts) = scenarioAccounts"
    by blast
  from inst
  have o: "accounts_table (snd (deleteTransaction scenarioAccounts
        [storedTransaction txRevenue ''t1'' nettingEntries] ''t1'' True
        (snd (addTransaction scenarioAccounts txRevenue nettingEntries (Stored ''t1'') scenarioDb))))
       = accounts_table scenarioDb"
    by blast
  show ?thesis by (intro conjI c d r a o)
qed


text \<open>Witness of claim C7: the account \<open>1200\<close> of the default chart.\<close>

theorem closing_witness:
  "defaultAccounts ! 1 \<in> set defaultAccounts
   \<and> Map_get (openingBalances defaultAccounts ledger2024 year2024) ''1200'' = Some 5000000
   \<and> Map_get (periodChanges defaultAccounts ledger2024 year2024) ''1200'' = Some 600000
   \<and> Map_get (closingBalances defaultAccounts ledger2024 year2024) ''1200'' = Some 5600000"
proof -
  have a1: "defaultAccounts ! 1 \<in> set defaultAccounts" by code_simp
  have c1: "code (defaultAccounts ! 1) = ''1200''" by code_simp
  have ob: "Map_get (openingBalances defaultAccounts ledger2024 year2024) ''1200'' = Some 5000000"
    by code_simp
  have pc: "Map_get (periodChanges defaultAccounts ledger2024 year2024) ''1200'' = Some 600000"
    by code_simp
  from closing_is_opening_plus_change[OF a1, of ledger2024 year2024] c1 ob pc
  have "Map_get (closingBalances defaultAccounts ledger2024 year2024) ''1200'' = Some 5600000"
    by auto
  with a1 ob pc show ?thesis by blast
qed

text \<open>Witness of claim C10: a transaction with an entry on the unknown account \<open>9999\<close>.\<close>

theorem unknown_accounts_witness:
  "''9999'' \<notin> code ` set scenarioAccounts
   \<and> calculatePeriodFinancials scenarioAccounts [txRevenue, txStrayKnown] year2024 =
       calculatePeriodFinancials scenarioAccounts [txRevenue, txStray] year2024
   \<and> creationUpdates scenarioAccounts (entries txStrayKnown) = creationUpdates scenarioAccounts (entries txStray)
   \<and> Map_get (creationUpdates scenarioAccounts (entries txStray)) ''9999'' = None
   \<and> Map_get (deletionUpdates scenarioAccounts (entries txStray)) ''9999'' = None"
proof -
  have u: "''9999'' \<notin> code ` set scenarioAccounts" by code_simp
  have d: "dropUnknown scenarioAccounts [txRevenue, txStray] = [txRevenue, txStrayKnown]"
    by code_simp
  have e: "filter (\<lambda>e. account_code e \<in> code ` set scenarioAccounts) (entries txStray) = entries txStrayKnown"
    by code_simp
  from unknown_accounts_are_skipped[of scenarioAccounts "[txRevenue, txStray]" year2024 "entries txStray"] u
  show ?thesis unfolding d e by blast
qed

subsection \<open>Validation of a transaction\<close>

lemma importEntries_totals:
  "importEntries fl accounts rows (d, c) = Inr (es, totals) \<Longrightarrow>
   totals = foldl (\<lambda>(d, c) row. (fl (d + Debit row), fl (c + Kredit row))) (d, c) rows"
proof (induction rows arbitrary: d c es)
  case Nil
  then show ?case by simp
next
  case (Cons row rows)
  from Cons.prems obtain es' where
    "importEntries fl accounts rows (fl (d + Debit row), fl (c + Kredit row)) = Inr (es', totals)"
    by (auto simp: Let_def split: if_splits sum.splits prod.splits)
  from Cons.IH[OF this] show ?case by simp
qed

lemma importGroup_within_tolerance:
  assumes "importGroup fl parseDate accounts rows = Inr transactionData"
  shows "\<not> fl (1 / 100) < \<bar>fl (fst (importTotals fl rows) - snd (importTotals fl rows))\<bar>"
proof -
  from assms obtain es totalDebit totalCredit where
    e: "importEntries fl accounts rows (0, 0) = Inr (es, totalDebit, totalCredit)"
    by (auto simp: importGroup_def split: sum.splits prod.splits)
  from importEntries_totals[OF e] have t: "importTotals fl rows = (totalDebit, totalCredit)"
    by (simp add: importTotals_def)
  from assms e show ?thesis
    by (auto simp: importGroup_def t split: list.splits if_splits)
qed

lemma importGroups_all:
  "importGroups fl parseDate accounts groups = Inr transactionsData \<Longrightarrow>
   rows \<in> snd ` set groups \<Longrightarrow> \<exists>transactionData. importGroup fl parseDate accounts rows = Inr transactionData"
proof (induction groups arbitrary: transactionsData)
  case Nil
  then show ?case by simp
next
  case (Cons g groups)
  obtain key rows' where g: "g = (key, rows')" by (cases g)
  from Cons.prems(1) obtain t ts where
    1: "importGroup fl parseDate accounts rows' = Inr t"
    and 2: "importGroups fl parseDate accounts groups = Inr ts"
    by (auto simp: g split: sum.splits)
  from Cons.prems(2) consider "rows = rows'" | "rows \<in> snd ` set groups" by (auto simp: g)
  then show ?case
  proof cases
    case 1
    with \<open>importGroup fl parseDate accounts rows' = Inr t\<close> show ?thesis by blast
  next
    case 2
    from Cons.IH[OF \<open>importGroups fl parseDate accounts groups = Inr ts\<close> this] show ?thesis .
  qed
qed

lemma groupRows_Nil: "groupRows [] = []"
  by (simp add: groupRows_def)

lemma import_stops_at_unbalanced_group:
  assumes "rows \<in> snd ` set (groupRows parsedData)"
    and "fl (1 / 100) < \<bar>fl (fst (importTotals fl rows) - snd (importTotals fl rows))\<bar>"
  shows "\<exists>err. transactionsToImport fl parseDate accounts parsedData = Inl err"
proof (cases "transactionsToImport fl parseDate accounts parsedData")
  case (Inl err)
  then show ?thesis by blast
next
  case (Inr transactionsData)
  from assms(1) have "parsedData \<noteq> []" by (auto simp: groupRows_Nil)
  with Inr have "importGroups fl parseDate accounts (groupRows parsedData) = Inr transactionsData"
    by (simp add: transactionsToImport_def)
  from importGroups_all[OF this assms(1)] importGroup_within_tolerance assms(2)
  show ?thesis by blast
qed

text \<open>
  Claim C8, as amended. The program rejects a transaction in two places, each before
  anything is saved. The transaction form rejects a submission unless the total debit it
  computes is positive and equal to the total credit it computes. The import does nothing
  when, for some group of rows, the totals it computes differ by more than \<open>0.01\<close>. In both
  cases the database is as before.
\<close>

theorem unbalanced_transaction_is_rejected:
  "(\<not> (0 < fst (formTotals fl (entries formData))
        \<and> fst (formTotals fl (entries formData)) = snd (formTotals fl (entries formData)))
      \<longrightarrow> handleSubmit fl accounts canEdit formData ok reply db = (Rejected, db))
   \<and> ((\<exists>rows \<in> snd ` set (groupRows parsedData).
          fl (1 / 100) < \<bar>fl (fst (importTotals fl rows) - snd (importTotals fl rows))\<bar>)
      \<longrightarrow> handleImport fl parseDate accounts parsedData replies db = (NotImported, db))"
proof (intro conjI impI)
  assume "\<not> (0 < fst (formTotals fl (entries formData))
        \<and> fst (formTotals fl (entries formData)) = snd (formTotals fl (entries formData)))"
  then show "handleSubmit fl accounts canEdit formData ok reply db = (Rejected, db)"
    by (simp add: handleSubmit_def formIsBalanced_def)
next
  assume "\<exists>rows \<in> snd ` set (groupRows parsedData).
          fl (1 / 100) < \<bar>fl (fst (importTotals fl rows) - snd (importTotals fl rows))\<bar>"
  then obtain rows where "rows \<in> snd ` set (groupRows parsedData)"
    and "fl (1 / 100) < \<bar>fl (fst (importTotals fl rows) - snd (importTotals fl rows))\<bar>"
    by blast
  from import_stops_at_unbalanced_group[OF this, of parseDate accounts]
  show "handleImport fl parseDate accounts parsedData replies db = (NotImported, db)"
    by (auto simp: handleImport_def)
qed

text \<open>
  Witness of claim C8: the form and the sheet with a debit of 500,000 and a credit of
  400,000, in the arithmetic of doubles.
\<close>

theorem unbalanced_transaction_witness:
  "\<not> (0 < fst (formTotals roundDouble (entries unbalancedForm))
       \<and> fst (formTotals roundDouble (entries unbalancedForm))
           = snd (formTotals roundDouble (entries unbalancedForm)))
   \<and> handleSubmit roundDouble scenarioAccounts True unbalancedForm True (Stored ''t1'') scenarioDb
       = (Rejected, scenarioDb)
   \<and> (\<exists>rows \<in> snd ` set (groupRows unbalancedRows).
         roundDouble (1 / 100)
           < \<bar>roundDouble (fst (importTotals roundDouble rows) - snd (importTotals roundDouble rows))\<bar>)
   \<and> handleImport roundDouble parseIsoDate scenarioAccounts unbalancedRows (\<lambda>i. Stored ''t1'') scenarioDb
       = (NotImported, scenarioDb)"
proof -
  have h: "\<not> (0 < fst (formTotals roundDouble (entries unbalancedForm))
       \<and> fst (formTotals roundDouble (entries unbalancedForm))
           = snd (formTotals roundDouble (entries unbalancedForm)))"
    by code_simp
  have g: "\<exists>rows \<in> snd ` set (groupRows unbalancedRows).
         roundDouble (1 / 100)
           < \<bar>roundDouble (fst (importTotals roundDouble rows) - snd (importTotals roundDouble rows))\<bar>"
    by code_simp
  note inst = unbalanced_transaction_is_rejected
    [of roundDouble unbalancedForm scenarioAccounts True True "Stored ''t1''" scenarioDb
        unbalancedRows parseIsoDate "\<lambda>i. Stored ''t1''"]
  from inst h
  have s: "handleSubmit roundDouble scenarioAccounts True unbalancedForm True (Stored ''t1'') scenarioDb
       = (Rejected, scenarioDb)"
    by blast
  from inst g
  have i: "handleImport roundDouble parseIsoDate scenarioAccounts unbalancedRows (\<lambda>i. Stored ''t1'')
             scenarioDb = (NotImported, scenarioDb)"
    by blast
  show ?thesis by (intro conjI h s g i)
qed

text \<open>
  Counterexample to claim C8 as stated. \<open>addTransactionsBatch\<close> checks nothing: the entries
  with a debit of 500,000 and a credit of 400,000, given to it, are stored and change the
  balances of both accounts. The import stores a group whose totals are zero, and a group
  whose debit of 100 and credit of 100.0078125 differ by less than \<open>0.01\<close>. The form saves
  debits of \<open>2^53\<close> and \<open>1\<close> against a credit of \<open>2^53\<close>: the total debit it computes is \<open>2^53\<close>.
\<close>

theorem unbalanced_batch_is_persisted:
  "sum_list (map debit unbalancedEntries) \<noteq> sum_list (map credit unbalancedEntries)
   \<and> fst (addTransactionsBatch scenarioAccounts
        [((mkTransaction ''2024-01-15'' ''Impor'' [], unbalancedEntries), Stored ''t1'')] scenarioDb)
       = Inr [\<lparr>tx_id = Some ''t1'', date = ''2024-01-15'', ref = [], tx_description = ''Impor'',
               entries = map (\<lambda>e. e\<lparr>transaction_id := Some ''t1''\<rparr>) unbalancedEntries\<rparr>]
   \<and> map entries (transactions_table (snd (addTransactionsBatch scenarioAccounts
        [((mkTransaction ''2024-01-15'' ''Impor'' [], unbalancedEntries), Stored ''t1'')] scenarioDb)))
       = [map (\<lambda>e. e\<lparr>transaction_id := Some ''t1''\<rparr>) unbalancedEntries]
   \<and> map (\<lambda>a. (code a, balance a)) (accounts_table (snd (addTransactionsBatch scenarioAccounts
        [((mkTransaction ''2024-01-15'' ''Impor'' [], unbalancedEntries), Stored ''t1'')] scenarioDb)))
       = [(''1200'', 500000), (''4100'', 400000)]
   \<and> fst (handleImport roundDouble parseIsoDate scenarioAccounts zeroRows (\<lambda>i. Stored ''t1'') scenarioDb)
       = Imported
   \<and> map (\<lambda>t. map (\<lambda>e. (account_code e, debit e, credit e)) (entries t))
        (transactions_table (snd (handleImport roundDouble parseIsoDate scenarioAccounts zeroRows
           (\<lambda>i. Stored ''t1'') scenarioDb)))
       = [[(''1200'', 0, 0)]]
   \<and> sum_list (map Debit nearRows) \<noteq> sum_list (map Kredit nearRows)
   \<and> fst (handleImport roundDouble parseIsoDate scenarioAccounts nearRows (\<lambda>i. Stored ''t1'') scenarioDb)
       = Imported
   \<and> map (\<lambda>t. map (\<lambda>e. (account_code e, debit e, credit e)) (entries t))
        (transactions_table (snd (handleImport roundDouble parseIsoDate scenarioAccounts nearRows
           (\<lambda>i. Stored ''t1'') scenarioDb)))
       = [[(''1200'', 100, 0), (''4100'', 0, 100 + 1 / 128)]]
   \<and> map (\<lambda>a. (code a, balance a))
        (accounts_table (snd (handleImport roundDouble parseIsoDate scenarioAccounts nearRows
           (\<lambda>i. Stored ''t1'') scenarioDb)))
       = [(''1200'', 100), (''4100'', 100 + 1 / 128)]
   \<and> sum_list (map debit (entries largeForm)) \<noteq> sum_list (map credit (entries largeForm))
   \<and> formTotals roundDouble (entries largeForm) = (2 ^ 53, 2 ^ 53)
   \<and> fst (handleSubmit roundDouble scenarioAccounts True largeForm True (Stored ''t1'') scenarioDb)
       = Saved
   \<and> map (\<lambda>t. map (\<lambda>e. (account_code e, debit e, credit e)) (entries t))
        (transactions_table (snd (handleSubmit roundDouble scenarioAccounts True largeForm True
           (Stored ''t1'') scenarioDb)))
       = [[(''1200'', 2 ^ 53, 0), (''1200'', 1, 0), (''4100'', 0, 2 ^ 53)]]"
  by code_simp

text \<open>
  Where no rounding occurs the computed totals are the sums of the amounts: for amounts in
  whole units whose absolute values add up to at most \<open>2^53\<close>, the form rejects entries
  unless the sum of the debits is positive and equal to the sum of the credits, and the
  import does nothing when the debits and the credits of a group have different sums.
\<close>

lemma foldl_pair:
  "foldl (\<lambda>(d, c) x. (f d x, g c x)) (d0, c0) xs = (foldl f d0 xs, foldl g c0 xs)"
  by (induction xs arbitrary: d0 c0) simp_all

lemma formTotals_exact:
  assumes "exactOnWhole fl" and "\<forall>e \<in> set es. wholeEntry e"
    and "sum_list (map absChange es) \<le> 2 ^ 53"
  shows "formTotals fl es = (sum_list (map debit es), sum_list (map credit es))"
proof -
  have nn: "0 \<le> sum_list (map (\<lambda>e. \<bar>credit e\<bar>) es)" "0 \<le> sum_list (map (\<lambda>e. \<bar>debit e\<bar>) es)"
    by (rule sum_list_nonneg, force)+
  have split: "sum_list (map absChange es) =
      sum_list (map (\<lambda>e. \<bar>debit e\<bar>) es) + sum_list (map (\<lambda>e. \<bar>credit e\<bar>) es)"
    by (induction es) (simp_all add: absChange_def)
  have d: "foldl (\<lambda>s e. fl (s + debit e)) 0 es = 0 + sum_list (map debit es)"
    using assms(2,3) nn split
    by (intro fold_fl_exact[OF assms(1) isWhole_0, where w = "\<lambda>e. \<bar>debit e\<bar>"])
       (auto simp: wholeEntry_def)
  have c: "foldl (\<lambda>s e. fl (s + credit e)) 0 es = 0 + sum_list (map credit es)"
    using assms(2,3) nn split
    by (intro fold_fl_exact[OF assms(1) isWhole_0, where w = "\<lambda>e. \<bar>credit e\<bar>"])
       (auto simp: wholeEntry_def)
  show ?thesis
    unfolding formTotals_def foldl_pair[of "\<lambda>d e. fl (d + debit e)" "\<lambda>c e. fl (c + credit e)"]
    using d c by simp
qed

lemma form_rejects_unequal_sums:
  assumes "exactOnWhole fl" and "\<forall>e \<in> set (entries formData). wholeEntry e"
    and "sum_list (map absChange (entries formData)) \<le> 2 ^ 53"
    and "\<not> (0 < sum_list (map debit (entries formData))
            \<and> sum_list (map debit (entries formData)) = sum_list (map credit (entries formData)))"
  shows "handleSubmit fl accounts canEdit formData ok reply db = (Rejected, db)"
  using assms(4)
  by (simp add: handleSubmit_def formIsBalanced_def formTotals_exact[OF assms(1-3)])

lemma importTotals_exact:
  assumes "exactOnWhole fl" and "\<forall>row \<in> set rows. isWhole (Debit row) \<and> isWhole (Kredit row)"
    and "sum_list (map (\<lambda>row. \<bar>Debit row\<bar> + \<bar>Kredit row\<bar>) rows) \<le> 2 ^ 53"
  shows "importTotals fl rows = (sum_list (map Debit rows), sum_list (map Kredit rows))"
proof -
  have nn: "0 \<le> sum_list (map (\<lambda>e. \<bar>Kredit e\<bar>) rows)" "0 \<le> sum_list (map (\<lambda>e. \<bar>Debit e\<bar>) rows)"
    by (rule sum_list_nonneg, force)+
  have split: "sum_list (map (\<lambda>row. \<bar>Debit row\<bar> + \<bar>Kredit row\<bar>) rows) =
      sum_list (map (\<lambda>e. \<bar>Debit e\<bar>) rows) + sum_list (map (\<lambda>e. \<bar>Kredit e\<bar>) rows)"
    by (simp add: sum_list_addf)
  have d: "foldl (\<lambda>s e. fl (s + Debit e)) 0 rows = 0 + sum_list (map Debit rows)"
    using assms(2,3) nn split
    by (intro fold_fl_exact[OF assms(1) isWhole_0, where w = "\<lambda>e. \<bar>Debit e\<bar>"]) auto
  have c: "foldl (\<lambda>s e. fl (s + Kredit e)) 0 rows = 0 + sum_list (map Kredit rows)"
    using assms(2,3) nn split
    by (intro fold_fl_exact[OF assms(1) isWhole_0, where w = "\<lambda>e. \<bar>Kredit e\<bar>"]) auto
  show ?thesis
    unfolding importTotals_def foldl_pair[of "\<lambda>d e. fl (d + Debit e)" "\<lambda>c e. fl (c + Kredit e)"]
    using d c by simp
qed

lemma whole_nonzero_ge_1: "isWhole x \<Longrightarrow> x \<noteq> 0 \<Longrightarrow> 1 \<le> \<bar>x\<bar>"
proof -
  assume "isWhole x" "x \<noteq> 0"
  then obtain z where x: "x = of_int z" and "z \<noteq> 0"
    by (auto simp: isWhole_Ints elim: Ints_cases)
  then have "1 \<le> \<bar>z\<bar>" by linarith
  then show ?thesis unfolding x by (metis of_int_abs of_int_1_le_iff)
qed

lemma import_rejects_unequal_sums:
  assumes "exactOnWhole fl" and "fl (1 / 100) < 1"
    and "rows \<in> snd ` set (groupRows parsedData)"
    and "\<forall>row \<in> set rows. isWhole (Debit row) \<and> isWhole (Kredit row)"
    and "sum_list (map (\<lambda>row. \<bar>Debit row\<bar> + \<bar>Kredit row\<bar>) rows) \<le> 2 ^ 53"
    and "sum_list (map Debit rows) \<noteq> sum_list (map Kredit rows)"
  shows "handleImport fl parseDate accounts parsedData replies db = (NotImported, db)"
proof -
  let ?d = "sum_list (map Debit rows)" and ?c = "sum_list (map Kredit rows)"
  have wd: "isWhole ?d" and wc: "isWhole ?c"
    using assms(4) by (auto intro: isWhole_sum_list)
  have "\<bar>?d\<bar> \<le> sum_list (map (\<lambda>e. \<bar>Debit e\<bar>) rows)" "\<bar>?c\<bar> \<le> sum_list (map (\<lambda>e. \<bar>Kredit e\<bar>) rows)"
    by (rule abs_sum_list_le, simp)+
  with assms(5) have b: "\<bar>?d - ?c\<bar> \<le> 2 ^ 53" by (simp add: sum_list_addf)
  have "fl (?d - ?c) = ?d - ?c"
    by (rule exactOnWhole_apply[OF assms(1) isWhole_diff[OF wd wc] b])
  moreover have "1 \<le> \<bar>?d - ?c\<bar>"
    using assms(6) by (intro whole_nonzero_ge_1 isWhole_diff wd wc) simp
  ultimately have "fl (1 / 100) < \<bar>fl (fst (importTotals fl rows) - snd (importTotals fl rows))\<bar>"
    using assms(2) by (simp add: importTotals_exact[OF assms(1,4,5)])
  from import_stops_at_unbalanced_group[OF assms(3) this, of parseDate accounts]
  show ?thesis by (auto simp: handleImport_def)
qed

text \<open>
  The form checks all rows and saves the rows with an account: a row without account passes
  the check and is left out of the saved transaction.
\<close>

lemma form_with_blank_row_is_saved:
  "formIsBalanced roundDouble [mkEntry [] 100 0, mkEntry ''4100'' 0 100]
   \<and> fst (handleSubmit roundDouble scenarioAccounts True
        (mkTransaction ''2024-01-15'' ''Baris kosong'' [mkEntry [] 100 0, mkEntry ''4100'' 0 100])
        True (Stored ''t1'') scenarioDb) = Saved
   \<and> map (\<lambda>t. map (\<lambda>e. (account_code e, debit e, credit e)) (entries t))
        (transactions_table (snd (handleSubmit roundDouble scenarioAccounts True
        (mkTransaction ''2024-01-15'' ''Baris kosong'' [mkEntry [] 100 0, mkEntry ''4100'' 0 100])
        True (Stored ''t1'') scenarioDb)))
       = [[(''4100'', 0, 100)]]"
  by code_simp

subsection \<open>Opening balance of a new account\<close>

text \<open>
  When all remote calls succeed and the accounts of the component state have no account with
  the code of the new account, the row of the new account keeps the balance \<open>0\<close>.
\<close>

lemma addAccount_success:
  assumes "balance account \<noteq> 0"
  shows "addAccount accounts True today account True (Stored i) db =
     (Inr (),
      snd (addTransaction accounts
             \<lparr>tx_id = None, date = today, ref = ''SALDO-AWAL'',
              tx_description = ''Saldo Awal untuk Akun '' @ code account, entries = []\<rparr>
             [\<lparr>entry_id = None, transaction_id = None, account_code = code account,
               debit = (if atype account = Aset \<or> atype account = Beban then balance account else 0),
               credit = (if \<not> (atype account = Aset \<or> atype account = Beban) then balance account else 0)\<rparr>,
              \<lparr>entry_id = None, transaction_id = None, account_code = ''3999'',
               debit = (if \<not> (atype account = Aset \<or> atype account = Beban) then balance account else 0),
               credit = (if atype account = Aset \<or> atype account = Beban then balance account else 0)\<rparr>]
             (Stored i)
             (db\<lparr>accounts_table := accounts_table db @ [account\<lparr>balance := 0\<rparr>]\<rparr>)))"
  using assms
  by (simp add: addAccount_def addAccountsBatch_def Let_def addTransaction_stored)

lemma new_account_balance_stays_zero:
  assumes "balance account \<noteq> 0" and "code account \<notin> code ` set accounts"
  shows "last (accounts_table (snd (addAccount accounts True today account True (Stored i) db)))
           = account\<lparr>balance := 0\<rparr>"
  unfolding addAccount_success[OF assms(1)] addTransaction_stored
  by (simp add: applyUpdates_distinct[OF distinct_creationUpdates]
        unknown_code_has_no_update[OF assms(2)])

text \<open>
  Claim C9 at a new accumulated depreciation account with an opening balance of 500,000: one
  transaction of two entries is stored, debiting the new account and crediting \<open>3999\<close>.
  The accounts of the component state do not have the new account yet, its entry is left out
  of the updates, and its stored balance stays \<open>0\<close>; only \<open>3999\<close> is updated. With a
  component state that has the account, the update of the new account is \<open>-500,000\<close>:
  \<open>addAccount\<close> takes the side of the entry from the type alone, and the update treats the
  account as a contra-asset.
\<close>

theorem opening_balance_misses_new_account:
  "balance newContraAccount = 500000
   \<and> fst (addAccount seedAccounts True ''2024-01-15'' newContraAccount True (Stored ''t1'') seedDb) = Inr ()
   \<and> map (\<lambda>t. map (\<lambda>e. (account_code e, debit e, credit e)) (entries t))
        (transactions_table (snd (addAccount seedAccounts True ''2024-01-15'' newContraAccount True
           (Stored ''t1'') seedDb)))
       = [[(''1621'', 500000, 0), (''3999'', 0, 500000)]]
   \<and> map (\<lambda>a. (code a, balance a))
        (accounts_table (snd (addAccount seedAccounts True ''2024-01-15'' newContraAccount True
           (Stored ''t1'') seedDb)))
       = [(''1200'', 0), (''3999'', 500000), (''1621'', 0)]
   \<and> map (\<lambda>a. (code a, balance a))
        (accounts_table (snd (addAccount (seedAccounts @ [newContraAccount\<lparr>balance := 0\<rparr>]) True
           ''2024-01-15'' newContraAccount True (Stored ''t1'') seedDb)))
       = [(''1200'', 0), (''3999'', 500000), (''1621'', - 500000)]"
  by code_simp

text \<open>The same for a plain bank account: only \<open>3999\<close> receives the opening balance.\<close>

lemma opening_balance_misses_new_bank_account:
  "balance newBankAccount = 500000
   \<and> map (\<lambda>a. (code a, balance a))
        (accounts_table (snd (addAccount seedAccounts True ''2024-01-15'' newBankAccount True
           (Stored ''t1'') seedDb)))
       = [(''1200'', 0), (''3999'', 500000), (''1250'', 0)]"
  by code_simp

end
